theory Spec2Isabelle
  imports Complex_Main "HOL-Library.Word" "HOL-Library.Sublist"
begin

section \<open>JavaScript strings and arrays\<close>

text \<open>
  A JavaScript string is a sequence of UTF-16 code units. The lexicons of the Hindi
  handler are Devanagari, so their literals are written as lists of code units; the
  ASCII literals of the English handler are written with \<open>js\<close>.
\<close>

type_synonym jsstring = "16 word list"

definition js :: "string \<Rightarrow> jsstring" where
  "js s = map (\<lambda>c. of_nat (of_char c)) s"

text \<open>\<open>String.prototype.includes\<close>: the needle occurs as a contiguous run of code units.\<close>

fun str_includes :: "jsstring \<Rightarrow> jsstring \<Rightarrow> bool" where
  "str_includes [] k = (k = [])"
| "str_includes (c # cs) k = (prefix k (c # cs) \<or> str_includes cs k)"

text \<open>
  \<open>String.prototype.toLowerCase\<close>. The capitals A to Z become a to z, U+0130 (capital I
  with dot above) becomes i followed by U+0307, and U+212A (Kelvin sign) becomes k; these
  are all the characters whose lower case holds a code unit of Basic Latin or of
  Devanagari without being the character itself. Every other code unit is kept as it
  is: JavaScript replaces some of them (capitals of other scripts), always by code units
  outside Basic Latin and Devanagari. Every keyword of the two handlers consists of
  Basic Latin and Devanagari code units only, and the lower-cased text is used for
  nothing but \<open>includes\<close> tests with these keywords, so the tests of the model have the
  results of the tests of the handlers.
\<close>

definition toLowerUnit :: "16 word \<Rightarrow> jsstring" where
  "toLowerUnit c =
    (if 0x41 \<le> c \<and> c \<le> 0x5A then [c + 0x20]
     else if c = 0x130 then [0x69, 0x307]
     else if c = 0x212A then [0x6B]
     else [c])"

definition toLowerCase :: "jsstring \<Rightarrow> jsstring" where
  "toLowerCase s = concat (map toLowerUnit s)"

text \<open>\<open>keywords.some(keyword => text.includes(keyword))\<close>\<close>

definition some_includes :: "jsstring \<Rightarrow> jsstring list \<Rightarrow> bool" where
  "some_includes text keywords = list_ex (\<lambda>keyword. str_includes text keyword) keywords"

text \<open>\<open>Array.prototype.join\<close>\<close>

fun join :: "jsstring \<Rightarrow> jsstring list \<Rightarrow> jsstring" where
  "join sep [] = []"
| "join sep [x] = x"
| "join sep (x # y # ys) = x @ sep @ join sep (y # ys)"

text \<open>
  Reading \<open>xs[i]\<close> gives \<open>undefined\<close> (here \<open>None\<close>) outside the array; reading a
  property of \<open>undefined\<close> throws a \<open>TypeError\<close>.
\<close>

datatype js_error = TypeError

definition js_index :: "'a list \<Rightarrow> int \<Rightarrow> 'a option" where
  "js_index xs i = (if 0 \<le> i \<and> i < int (length xs) then Some (xs ! nat i) else None)"

text \<open>Decimal digits of a natural number, for number-to-string conversion.\<close>

fun decimal :: "nat \<Rightarrow> string" where
  "decimal n =
    (if n < 10 then [''0123456789'' ! n]
     else decimal (n div 10) @ [''0123456789'' ! (n mod 10)])"

declare decimal.simps [simp del]

section \<open>Data model\<close>

text \<open>
  The interfaces of the two route handlers. Times and sentiment scores are JavaScript
  numbers, which the handlers only compare with literals. A number is modelled by the
  real that its shortest decimal notation denotes (the notation that JavaScript prints
  and that reads back as the same double): two doubles are ordered as these reals are,
  and the literals of the source (3, 5, 30, 60, 0, 0.1, 0.3) are such notations, so the
  comparisons of the model are those of the handlers.
\<close>

datatype InputType = PASS_FAIL | SCORE

record Parameter =
  key :: string
  name :: string
  weight :: int
  desc :: string
  inputType :: InputType

text \<open>The English handler's utterance; the Hindi handler's adds per-utterance sentiment.\<close>

record Utterance_en =
  transcript :: jsstring
  start :: real
  endT :: real

record Utterance = Utterance_en +
  utt_sentiment :: jsstring
  utt_sentiment_score :: real

record Sentiment =
  sentiment :: jsstring
  sentiment_score :: real

text \<open>
  The English handler reads \<open>sentiment.overall\<close> from the provider's object or from
  \<open>{}\<close>, where it is \<open>undefined\<close> (\<open>None\<close>); every comparison of \<open>undefined\<close> with a
  number is false and \<open>undefined !== 0\<close> is true.
\<close>

record Sentiment_en =
  overall :: "real option"

record Topic =
  topic :: jsstring
  confidence_score :: real

record Topic_en =
  topic_en :: jsstring
  confidence_en :: real

record Intent =
  intent :: jsstring
  confidence :: real

text \<open>The parameter registry, the same table in both handlers.\<close>

definition parameters :: "Parameter list" where
  "parameters =
    [\<lparr>key = ''greeting'', name = ''Greeting'', weight = 5,
       desc = ''Call opening within 5 seconds'', inputType = PASS_FAIL\<rparr>,
     \<lparr>key = ''collectionUrgency'', name = ''Collection Urgency'', weight = 15,
       desc = ''Create urgency, cross-questioning'', inputType = SCORE\<rparr>,
     \<lparr>key = ''rebuttalCustomerHandling'', name = ''Rebuttal Handling'', weight = 15,
       desc = ''Address penalties, objections'', inputType = SCORE\<rparr>,
     \<lparr>key = ''callEtiquette'', name = ''Call Etiquette'', weight = 15,
       desc = ''Tone, empathy, clear speech'', inputType = SCORE\<rparr>,
     \<lparr>key = ''callDisclaimer'', name = ''Call Disclaimer'', weight = 5,
       desc = ''Take permission before ending'', inputType = PASS_FAIL\<rparr>,
     \<lparr>key = ''correctDisposition'', name = ''Correct Disposition'', weight = 10,
       desc = ''Use correct category with remark'', inputType = PASS_FAIL\<rparr>,
     \<lparr>key = ''callClosing'', name = ''Call Closing'', weight = 5,
       desc = ''Thank the customer properly'', inputType = PASS_FAIL\<rparr>,
     \<lparr>key = ''fatalIdentification'', name = ''Identification'', weight = 5,
       desc = ''Missing agent/customer info'', inputType = PASS_FAIL\<rparr>,
     \<lparr>key = ''fatalTapeDiscloser'', name = ''Tape Disclosure'', weight = 10,
       desc = ''Inform customer about recording'', inputType = PASS_FAIL\<rparr>,
     \<lparr>key = ''fatalToneLanguage'', name = ''Tone & Language'', weight = 15,
       desc = ''No abusive or threatening speech'', inputType = PASS_FAIL\<rparr>]"

section \<open>The Hindi handler (route.ts)\<close>

subsection \<open>Lexicons\<close>

text \<open>
  The keyword arrays of route.ts, in source order, as UTF-16 code units (Devanagari,
  U+0900 to U+097F, and the space U+0020). \<open>disclaimerKeywords\<close> and
  \<open>disclosureKeywords\<close> are two separate arrays in the source. The arrays that
  \<open>generateObservation\<close> declares again (objection, rebuttal, disclosure, id, closing)
  have the same elements as those of the scorers.
\<close>

definition greetingKeywords :: "jsstring list" where
  "greetingKeywords =
    [[0x928, 0x92E, 0x938, 0x94D, 0x924, 0x947],
     [0x939, 0x948, 0x932, 0x94B],
     [0x917, 0x941, 0x921, 0x20, 0x92E, 0x949, 0x930, 0x94D, 0x928, 0x93F, 0x902, 0x917],
     [0x917, 0x941, 0x921, 0x20, 0x906, 0x92B, 0x94D, 0x91F, 0x930, 0x928, 0x942, 0x928],
     [0x917, 0x941, 0x921, 0x20, 0x907, 0x935, 0x928, 0x93F, 0x902, 0x917],
     [0x938, 0x94D, 0x935, 0x93E, 0x917, 0x924, 0x20, 0x939, 0x948]]"

definition urgencyKeywords :: "jsstring list" where
  "urgencyKeywords =
    [[0x91C, 0x930, 0x942, 0x930, 0x940],
     [0x924, 0x941, 0x930, 0x902, 0x924],
     [0x905, 0x938, 0x92A],
     [0x915, 0x94D, 0x930, 0x93F, 0x91F, 0x93F, 0x915, 0x932],
     [0x92E, 0x939, 0x924, 0x94D, 0x935, 0x92A, 0x942, 0x930, 0x94D, 0x923],
     [0x921, 0x947, 0x921, 0x932, 0x93E, 0x907, 0x928],
     [0x921, 0x94D, 0x92F, 0x942, 0x20, 0x921, 0x947, 0x91F],
     [0x92A, 0x947, 0x92E, 0x947, 0x902, 0x91F, 0x20, 0x921, 0x94D, 0x92F, 0x942],
     [0x932, 0x947, 0x91F, 0x20, 0x92A, 0x947, 0x92E, 0x947, 0x902, 0x91F],
     [0x913, 0x935, 0x930, 0x921, 0x94D, 0x92F, 0x942]]"

definition objectionKeywords :: "jsstring list" where
  "objectionKeywords =
    [[0x928, 0x939, 0x940, 0x902, 0x20, 0x915, 0x930, 0x20, 0x938, 0x915, 0x924, 0x947],
     [0x928, 0x939, 0x940, 0x902, 0x20, 0x939, 0x94B, 0x917, 0x93E],
     [0x928, 0x939, 0x940, 0x902],
     [0x938, 0x902, 0x92D, 0x935, 0x20, 0x928, 0x939, 0x940, 0x902],
     [0x92C, 0x939, 0x941, 0x924, 0x20, 0x92E, 0x939, 0x902, 0x917, 0x93E],
     [0x905, 0x92B, 0x94B, 0x930, 0x94D, 0x921, 0x20, 0x928, 0x939, 0x940, 0x902],
     [0x92E, 0x941, 0x936, 0x94D, 0x915, 0x93F, 0x932],
     [0x938, 0x92E, 0x938, 0x94D, 0x92F, 0x93E],
     [0x91A, 0x93F, 0x902, 0x924, 0x93E],
     [0x92A, 0x930, 0x947, 0x936, 0x93E, 0x928]]"

definition rebuttalKeywords :: "jsstring list" where
  "rebuttalKeywords =
    [[0x938, 0x92E, 0x91D, 0x924, 0x947, 0x20, 0x939, 0x948, 0x902],
     [0x932, 0x947, 0x915, 0x93F, 0x928],
     [0x92A, 0x930, 0x902, 0x924, 0x941],
     [0x935, 0x948, 0x915, 0x932, 0x94D, 0x92A, 0x93F, 0x915],
     [0x938, 0x92E, 0x93E, 0x927, 0x93E, 0x928],
     [0x92E, 0x926, 0x926],
     [0x938, 0x939, 0x93E, 0x92F, 0x924, 0x93E],
     [0x938, 0x92A, 0x94B, 0x930, 0x94D, 0x91F],
     [0x911, 0x92B, 0x930],
     [0x935, 0x93F, 0x915, 0x932, 0x94D, 0x92A],
     [0x938, 0x941, 0x91D, 0x93E, 0x935]]"

definition disclaimerKeywords :: "jsstring list" where
  "disclaimerKeywords =
    [[0x930, 0x93F, 0x915, 0x949, 0x930, 0x94D, 0x921, 0x93F, 0x902, 0x917],
     [0x930, 0x93F, 0x915, 0x949, 0x930, 0x94D, 0x921],
     [0x91F, 0x947, 0x92A],
     [0x92E, 0x949, 0x928, 0x93F, 0x91F, 0x930, 0x93F, 0x902, 0x917],
     [0x915, 0x949, 0x932, 0x20, 0x930, 0x93F, 0x915, 0x949, 0x930, 0x94D, 0x921, 0x20, 0x939, 0x94B, 0x20, 0x930, 0x939, 0x93E, 0x20, 0x939, 0x948],
     [0x915, 0x94D, 0x935, 0x93E, 0x932, 0x93F, 0x91F, 0x940, 0x20, 0x915, 0x947, 0x20, 0x932, 0x93F, 0x90F],
     [0x91F, 0x94D, 0x930, 0x947, 0x928, 0x93F, 0x902, 0x917, 0x20, 0x915, 0x947, 0x20, 0x932, 0x93F, 0x90F]]"

definition dispositionKeywords :: "jsstring list" where
  "dispositionKeywords =
    [[0x936, 0x94D, 0x930, 0x947, 0x923, 0x940],
     [0x92A, 0x94D, 0x930, 0x915, 0x93E, 0x930],
     [0x915, 0x93E, 0x930, 0x923],
     [0x909, 0x926, 0x94D, 0x926, 0x947, 0x936, 0x94D, 0x92F],
     [0x921, 0x93F, 0x938, 0x94D, 0x92A, 0x94B, 0x91C, 0x93F, 0x936, 0x928],
     [0x935, 0x930, 0x94D, 0x917, 0x940, 0x915, 0x930, 0x923],
     [0x938, 0x92E, 0x93E, 0x927, 0x93E, 0x928]]"

definition closingKeywords :: "jsstring list" where
  "closingKeywords =
    [[0x927, 0x928, 0x94D, 0x92F, 0x935, 0x93E, 0x926],
     [0x936, 0x941, 0x915, 0x94D, 0x930, 0x93F, 0x92F, 0x93E],
     [0x906, 0x92D, 0x93E, 0x930],
     [0x905, 0x932, 0x935, 0x93F, 0x926, 0x93E],
     [0x92C, 0x93E, 0x92F],
     [0x936, 0x941, 0x92D, 0x20, 0x926, 0x93F, 0x928],
     [0x916, 0x94D, 0x92F, 0x93E, 0x932, 0x20, 0x930, 0x916, 0x928, 0x93E],
     [0x905, 0x91A, 0x94D, 0x91B, 0x93E, 0x20, 0x926, 0x93F, 0x928]]"

definition idKeywords :: "jsstring list" where
  "idKeywords =
    [[0x928, 0x93E, 0x92E],
     [0x906, 0x908, 0x921, 0x940],
     [0x905, 0x915, 0x93E, 0x909, 0x902, 0x91F],
     [0x917, 0x94D, 0x930, 0x93E, 0x939, 0x915],
     [0x930, 0x947, 0x92B, 0x930, 0x947, 0x902, 0x938],
     [0x905, 0x915, 0x93E, 0x909, 0x902, 0x91F, 0x20, 0x928, 0x902, 0x92C, 0x930],
     [0x917, 0x94D, 0x930, 0x93E, 0x939, 0x915, 0x20, 0x906, 0x908, 0x921, 0x940],
     [0x92A, 0x939, 0x91A, 0x93E, 0x928]]"

definition disclosureKeywords :: "jsstring list" where
  "disclosureKeywords =
    [[0x930, 0x93F, 0x915, 0x949, 0x930, 0x94D, 0x921, 0x93F, 0x902, 0x917],
     [0x930, 0x93F, 0x915, 0x949, 0x930, 0x94D, 0x921],
     [0x91F, 0x947, 0x92A],
     [0x92E, 0x949, 0x928, 0x93F, 0x91F, 0x930, 0x93F, 0x902, 0x917],
     [0x915, 0x949, 0x932, 0x20, 0x930, 0x93F, 0x915, 0x949, 0x930, 0x94D, 0x921, 0x20, 0x939, 0x94B, 0x20, 0x930, 0x939, 0x93E, 0x20, 0x939, 0x948],
     [0x915, 0x94D, 0x935, 0x93E, 0x932, 0x93F, 0x91F, 0x940, 0x20, 0x915, 0x947, 0x20, 0x932, 0x93F, 0x90F],
     [0x91F, 0x94D, 0x930, 0x947, 0x928, 0x93F, 0x902, 0x917, 0x20, 0x915, 0x947, 0x20, 0x932, 0x93F, 0x90F]]"

definition negativeKeywords :: "jsstring list" where
  "negativeKeywords =
    [[0x917, 0x93E, 0x932, 0x940],
     [0x927, 0x92E, 0x915, 0x940],
     [0x917, 0x941, 0x938, 0x94D, 0x938, 0x93E],
     [0x905, 0x92D, 0x926, 0x94D, 0x930],
     [0x92C, 0x947, 0x935, 0x915, 0x942, 0x92B],
     [0x92C, 0x947, 0x915, 0x93E, 0x930],
     [0x92C, 0x941, 0x930, 0x93E],
     [0x92D, 0x92F, 0x93E, 0x928, 0x915],
     [0x938, 0x92C, 0x938, 0x947, 0x20, 0x916, 0x930, 0x93E, 0x92C]]"
subsection \<open>Scorers\<close>

definition analyzeGreeting :: "Utterance list \<Rightarrow> js_error + int" where
  "analyzeGreeting utterances =
    (if length utterances = 0 then Inr 0
     else case js_index utterances 0 of
       None \<Rightarrow> Inl TypeError
     | Some firstUtterance \<Rightarrow>
         let hasGreeting = some_includes (toLowerCase (transcript firstUtterance)) greetingKeywords
         in Inr (if hasGreeting \<and> start firstUtterance \<le> 3 then 5 else 0))"

definition urgencyStep :: "int \<Rightarrow> Utterance \<Rightarrow> int" where
  "urgencyStep score utterance =
    (let text = toLowerCase (transcript utterance);
         hasUrgency = some_includes text urgencyKeywords;
         hasQuestioning = (str_includes text [0x3F] \<and>
           (str_includes text [0x915, 0x92C] \<or>
            str_includes text [0x915, 0x94D, 0x92F, 0x94B, 0x902] \<or>
            str_includes text [0x915, 0x948, 0x938, 0x947]));
         hasTimeReference =
           (str_includes text [0x906, 0x91C] \<or>
            str_includes text [0x915, 0x932] \<or>
            str_includes text [0x907, 0x938, 0x20, 0x939, 0x92B, 0x94D, 0x924, 0x947] \<or>
            str_includes text [0x907, 0x938, 0x20, 0x92E, 0x939, 0x940, 0x928, 0x947])
     in score + (if hasUrgency then 2 else 0) + (if hasQuestioning then 1 else 0)
          + (if hasTimeReference then 1 else 0))"

definition analyzeUrgency :: "Utterance list \<Rightarrow> int" where
  "analyzeUrgency utterances =
    (let urgencyScore = foldl urgencyStep 0 utterances
     in min 15 (max 0 (urgencyScore - 2)))"

text \<open>The three counters that the \<open>forEach\<close> callback of \<open>analyzeRebuttal\<close> updates.\<close>

record RebuttalState =
  objectionCount :: int
  rebuttalCount :: int
  lastObjectionIndex :: int

definition rebuttalStep :: "RebuttalState \<Rightarrow> Utterance \<Rightarrow> int \<Rightarrow> RebuttalState" where
  "rebuttalStep st utterance index =
    (let text = toLowerCase (transcript utterance);
         hasObjection = some_includes text objectionKeywords;
         hasRebuttal = some_includes text rebuttalKeywords;
         st1 = (if hasObjection
                then st\<lparr>objectionCount := objectionCount st + 1, lastObjectionIndex := index\<rparr>
                else st)
     in if hasRebuttal \<and> index > lastObjectionIndex st1
        then st1\<lparr>rebuttalCount := rebuttalCount st1 + 1\<rparr>
        else st1)"

fun rebuttalLoop :: "RebuttalState \<Rightarrow> int \<Rightarrow> Utterance list \<Rightarrow> RebuttalState" where
  "rebuttalLoop st index [] = st"
| "rebuttalLoop st index (utterance # rest) =
     rebuttalLoop (rebuttalStep st utterance index) (index + 1) rest"

definition rebuttalCounts :: "Utterance list \<Rightarrow> RebuttalState" where
  "rebuttalCounts utterances =
    rebuttalLoop \<lparr>objectionCount = 0, rebuttalCount = 0, lastObjectionIndex = - 1\<rparr> 0 utterances"

definition analyzeRebuttal :: "Utterance list \<Rightarrow> int" where
  "analyzeRebuttal utterances =
    (let st = rebuttalCounts utterances;
         score = min 15 (objectionCount st * 2 + rebuttalCount st * 3)
     in if objectionCount st > 0
        then min 15 (max 0 (score - (objectionCount st - rebuttalCount st) * 2))
        else 0)"

definition analyzeEtiquette :: "Sentiment \<Rightarrow> int" where
  "analyzeEtiquette s =
    (let baseScore = 8;
         sentimentScore = (if sentiment_score s > 0.3 then 7
                           else if sentiment_score s > 0 then 3
                           else if sentiment_score s > - 0.3 then - 3 else - 7)
     in max 0 (min 15 (baseScore + sentimentScore)))"

definition analyzeDisclaimer :: "Utterance list \<Rightarrow> int" where
  "analyzeDisclaimer utterances =
    (let earlyDisclaimer = list_ex (\<lambda>utterance. start utterance \<le> 30 \<and>
           some_includes (toLowerCase (transcript utterance)) disclaimerKeywords) utterances
     in if earlyDisclaimer then 5 else 0)"

definition analyzeDisposition :: "Utterance list \<Rightarrow> Intent list \<Rightarrow> int" where
  "analyzeDisposition utterances intents =
    (let hasDisposition =
           (list_ex (\<lambda>utterance.
              some_includes (toLowerCase (transcript utterance)) dispositionKeywords) utterances
            \<or> list_ex (\<lambda>i. str_includes (toLowerCase (intent i)) (js ''disposition'') \<or>
                           str_includes (toLowerCase (intent i)) (js ''category'')) intents);
         hasSpecificDisposition =
           list_ex (\<lambda>utterance.
              let text = toLowerCase (transcript utterance)
              in some_includes text dispositionKeywords \<and>
                 (str_includes text [0x915, 0x94D, 0x92F, 0x94B, 0x902, 0x915, 0x93F] \<or>
                  str_includes text [0x915, 0x93E, 0x930, 0x923] \<or>
                  str_includes text [0x935, 0x91C, 0x939])) utterances
     in if hasSpecificDisposition then 10 else (if hasDisposition then 5 else 0))"

definition analyzeClosing :: "Utterance list \<Rightarrow> js_error + int" where
  "analyzeClosing utterances =
    (if length utterances = 0 then Inr 0
     else case js_index utterances (int (length utterances) - 1) of
       None \<Rightarrow> Inl TypeError
     | Some lastUtterance \<Rightarrow>
         let hasClosing = some_includes (toLowerCase (transcript lastUtterance)) closingKeywords;
             hasPoliteClosing = (hasClosing \<and>
               (str_includes (toLowerCase (transcript lastUtterance))
                  [0x927, 0x928, 0x94D, 0x92F, 0x935, 0x93E, 0x926] \<or>
                str_includes (toLowerCase (transcript lastUtterance))
                  [0x936, 0x941, 0x915, 0x94D, 0x930, 0x93F, 0x92F, 0x93E]))
         in Inr (if hasPoliteClosing then 5 else 0))"

definition analyzeIdentification :: "Utterance list \<Rightarrow> int" where
  "analyzeIdentification utterances =
    (let earlyIdentification = list_ex (\<lambda>utterance. start utterance \<le> 60 \<and>
           some_includes (toLowerCase (transcript utterance)) idKeywords) utterances
     in if earlyIdentification then 5 else 0)"

definition analyzeTapeDisclosure :: "Utterance list \<Rightarrow> int" where
  "analyzeTapeDisclosure utterances =
    (let earlyDisclosure = list_ex (\<lambda>utterance. start utterance \<le> 30 \<and>
           some_includes (toLowerCase (transcript utterance)) disclosureKeywords) utterances
     in if earlyDisclosure then 10 else 0)"

definition analyzeToneLanguage :: "Sentiment \<Rightarrow> Utterance list \<Rightarrow> int" where
  "analyzeToneLanguage s utterances =
    (let hasNegativeLanguage = list_ex (\<lambda>utterance.
           some_includes (toLowerCase (transcript utterance)) negativeKeywords) utterances
     in if hasNegativeLanguage \<or> sentiment_score s < - 0.3 then 0
        else if sentiment_score s < - 0.1 then 5
        else if sentiment_score s < 0.1 then 10
        else 15)"

subsection \<open>Feedback and observation\<close>

text \<open>
  The scores object is a list of key-value pairs in the order of its literal. Reading a
  missing property gives \<open>undefined\<close>, for which \<open>>= 12\<close> and \<open>=== 0\<close> are false.
\<close>

definition score_ge :: "(string \<times> int) list \<Rightarrow> string \<Rightarrow> int \<Rightarrow> bool" where
  "score_ge scores k n = (case map_of scores k of Some v \<Rightarrow> v \<ge> n | None \<Rightarrow> False)"

definition score_is :: "(string \<times> int) list \<Rightarrow> string \<Rightarrow> int \<Rightarrow> bool" where
  "score_is scores k n = (case map_of scores k of Some v \<Rightarrow> v = n | None \<Rightarrow> False)"

definition generateOverallFeedback :: "(string \<times> int) list \<Rightarrow> Sentiment \<Rightarrow> jsstring" where
  "generateOverallFeedback scores s =
    (let feedbackParts =
           (if score_ge scores ''collectionUrgency'' 12
            then [js ''The agent was effective in creating urgency''] else []) @
           (if score_ge scores ''rebuttalCustomerHandling'' 12
            then [js ''handled objections professionally''] else []) @
           (if score_ge scores ''callEtiquette'' 12
            then [js ''maintained excellent call etiquette''] else []) @
           (if score_is scores ''callDisclaimer'' 0
            then [js ''failed to provide disclaimer''] else []) @
           (if score_is scores ''fatalTapeDiscloser'' 0
            then [js ''missed tape disclosure''] else []) @
           (if score_is scores ''fatalIdentification'' 0
            then [js ''failed to verify customer identity''] else []) @
           (if sentiment_score s > 0.3 then [js ''maintained a positive tone throughout'']
            else if sentiment_score s < - 0.3
            then [js ''struggled with maintaining a positive tone''] else [])
     in js ''The agent '' @
        (if length feedbackParts > 0 then join (js '', '') feedbackParts
         else js ''performed adequately but has room for improvement''))"

text \<open>
  The state of the \<open>forEach\<close> of \<open>generateObservation\<close>. \<open>objectionTopics\<close> is a
  \<open>Set\<close>, which keeps insertion order and ignores a value it already holds.
\<close>

record ObservationScan =
  hasObjections :: bool
  hasRebuttals :: bool
  objectionTopics :: "jsstring list"

definition set_add :: "'a \<Rightarrow> 'a list \<Rightarrow> 'a list" where
  "set_add x xs = (if x \<in> set xs then xs else xs @ [x])"

definition observationStep :: "ObservationScan \<Rightarrow> Utterance \<Rightarrow> ObservationScan" where
  "observationStep st utterance =
    (let text = toLowerCase (transcript utterance);
         st1 = (if some_includes text objectionKeywords
                then let t1 = (if str_includes text [0x92A, 0x947, 0x928, 0x932, 0x94D, 0x91F, 0x940] \<or>
                                  str_includes text [0x91C, 0x941, 0x930, 0x94D, 0x92E, 0x93E, 0x928, 0x93E]
                               then set_add (js ''penalty'') (objectionTopics st)
                               else objectionTopics st);
                         t2 = (if str_includes text [0x92A, 0x947, 0x92E, 0x947, 0x902, 0x91F] \<or>
                                  str_includes text [0x92D, 0x941, 0x917, 0x924, 0x93E, 0x928]
                               then set_add (js ''payment'') t1 else t1);
                         t3 = (if str_includes text [0x938, 0x92E, 0x92F] \<or>
                                  str_includes text [0x91F, 0x93E, 0x907, 0x92E]
                               then set_add (js ''time'') t2 else t2)
                     in st\<lparr>hasObjections := True, objectionTopics := t3\<rparr>
                else st)
     in if some_includes text rebuttalKeywords then st1\<lparr>hasRebuttals := True\<rparr> else st1)"

definition observationScan :: "Utterance list \<Rightarrow> ObservationScan" where
  "observationScan utterances =
    foldl observationStep \<lparr>hasObjections = False, hasRebuttals = False, objectionTopics = []\<rparr>
      utterances"

definition fallbackObservation :: jsstring where
  "fallbackObservation = js ''No specific observations available.''"

text \<open>
  \<open>topics.sort((a, b) => b.confidence_score - a.confidence_score)\<close> is a stable sort by
  descending confidence. \<open>lastUtterance && ...\<close> is \<open>undefined\<close>, hence false, when the
  array is empty.
\<close>

definition generateObservation :: "Utterance list \<Rightarrow> Topic list \<Rightarrow> Sentiment \<Rightarrow> jsstring" where
  "generateObservation utterances topics s =
    (let st = observationScan utterances;
         objectionPart =
           (if hasObjections st then
              (let topicList = objectionTopics st in
               if length topicList > 0 then
                 (if hasRebuttals st
                  then [js ''Customer raised objections about '' @ join (js '' and '') topicList
                          @ js ''. Agent managed well'']
                  else [js ''Customer raised objections about '' @ join (js '' and '') topicList
                          @ js ''. Agent could have handled better''])
               else
                 (if hasRebuttals st
                  then [js ''Customer raised objections which were handled professionally'']
                  else [js ''Customer raised objections that could have been handled better'']))
            else []);
         hasDisclosure = list_ex (\<lambda>utterance.
           some_includes (toLowerCase (transcript utterance)) disclosureKeywords) utterances;
         disclosurePart = (if \<not> hasDisclosure then [js ''Agent missed tape disclosure''] else []);
         hasIdentification = list_ex (\<lambda>utterance.
           some_includes (toLowerCase (transcript utterance)) idKeywords) utterances;
         identificationPart =
           (if \<not> hasIdentification
            then [js ''Customer identification was not properly verified''] else []);
         topicPart =
           (if length topics > 0 then
              (let mainTopics = map topic (take 2 (sort_key (\<lambda>t. - confidence_score t) topics)) in
               if length mainTopics > 0 then
                 (let topicContext = join (js '' and '') mainTopics in
                  if sentiment_score s > 0.3 then [js ''Positive discussion about '' @ topicContext]
                  else if sentiment_score s < - 0.3
                  then [js ''Difficult conversation regarding '' @ topicContext]
                  else [js ''Discussed '' @ topicContext])
               else [])
            else []);
         hasProperClosing =
           (case js_index utterances (int (length utterances) - 1) of
              None \<Rightarrow> False
            | Some lastUtterance \<Rightarrow>
                some_includes (toLowerCase (transcript lastUtterance)) closingKeywords);
         closingPart =
           (if \<not> hasProperClosing then [js ''Call ended without proper closing''] else []);
         observations = objectionPart @ disclosurePart @ identificationPart @ topicPart @ closingPart;
         joined = join (js ''. '') observations
     in if joined = [] then fallbackObservation else joined)"

subsection \<open>The scoring step of POST\<close>

text \<open>
  The object literal \<open>scores\<close> of \<open>POST\<close>. An exception thrown by a scorer leaves the
  \<open>try\<close> block.
\<close>

definition computeScores ::
  "Utterance list \<Rightarrow> Sentiment \<Rightarrow> Intent list \<Rightarrow> js_error + (string \<times> int) list" where
  "computeScores utterances s intents =
    (case analyzeGreeting utterances of
       Inl e \<Rightarrow> Inl e
     | Inr greeting \<Rightarrow>
        (case analyzeClosing utterances of
           Inl e \<Rightarrow> Inl e
         | Inr callClosing \<Rightarrow>
             Inr [(''greeting'', greeting),
                  (''collectionUrgency'', analyzeUrgency utterances),
                  (''rebuttalCustomerHandling'', analyzeRebuttal utterances),
                  (''callEtiquette'', analyzeEtiquette s),
                  (''callDisclaimer'', analyzeDisclaimer utterances),
                  (''correctDisposition'', analyzeDisposition utterances intents),
                  (''callClosing'', callClosing),
                  (''fatalIdentification'', analyzeIdentification utterances),
                  (''fatalTapeDiscloser'', analyzeTapeDisclosure utterances),
                  (''fatalToneLanguage'', analyzeToneLanguage s utterances)]))"

datatype http_error = HttpError nat string

record ResponseBody =
  scores :: "(string \<times> int) list"
  overallFeedback :: jsstring
  observation :: jsstring

record Response = ResponseBody +
  parameters_view :: "(string \<times> int \<times> string \<times> InputType) list"

text \<open>
  \<open>POST\<close> from the point where the provider's reply has been parsed into the transcript
  text, the utterances, the call sentiment, the topics and the intents: the empty
  transcript is answered with status 500, an exception is caught and answered with
  status 500, otherwise the response data is returned.
\<close>

definition POST_analyze ::
  "jsstring \<Rightarrow> Utterance list \<Rightarrow> Sentiment \<Rightarrow> Topic list \<Rightarrow> Intent list
    \<Rightarrow> http_error + Response" where
  "POST_analyze transcriptText utterances s topics intents =
    (if transcriptText = [] then Inl (HttpError 500 ''Transcription failed'')
     else case computeScores utterances s intents of
       Inl e \<Rightarrow> Inl (HttpError 500 ''Processing failed'')
     | Inr sc \<Rightarrow>
         Inr \<lparr>scores = sc,
              overallFeedback = generateOverallFeedback sc s,
              observation = generateObservation utterances topics s,
              parameters_view = map (\<lambda>p. (name p, weight p, desc p, inputType p)) parameters\<rparr>)"

section \<open>The English handler\<close>

subsection \<open>Lexicons\<close>

definition urgencyKeywords_en :: "jsstring list" where
  "urgencyKeywords_en =
    [js ''urgent'', js ''immediately'', js ''asap'', js ''critical'', js ''important'']"

definition objectionKeywords_en :: "jsstring list" where
  "objectionKeywords_en =
    [js ''can'' @ [0x27] @ js ''t'', js ''won'' @ [0x27] @ js ''t'', js ''don'' @ [0x27] @ js ''t'',
     js ''not possible'', js ''too expensive'']"

definition disclaimerKeywords_en :: "jsstring list" where
  "disclaimerKeywords_en = [js ''recording'', js ''recorded'', js ''tape'', js ''monitoring'']"

definition closingKeywords_en :: "jsstring list" where
  "closingKeywords_en =
    [js ''thank'', js ''thanks'', js ''appreciate'', js ''goodbye'', js ''bye'']"

definition idKeywords_en :: "jsstring list" where
  "idKeywords_en = [js ''name'', js ''id'', js ''account'', js ''customer'']"

definition disclosureKeywords_en :: "jsstring list" where
  "disclosureKeywords_en = [js ''recording'', js ''recorded'', js ''tape'', js ''monitoring'']"

definition negativeKeywords_en :: "jsstring list" where
  "negativeKeywords_en = [js ''abuse'', js ''threat'', js ''angry'', js ''rude'']"

subsection \<open>Scorers\<close>

definition analyzeGreeting_en :: "Utterance_en list \<Rightarrow> js_error + int" where
  "analyzeGreeting_en utterances =
    (if length utterances = 0 then Inr 0
     else case js_index utterances 0 of
       None \<Rightarrow> Inl TypeError
     | Some firstUtterance \<Rightarrow>
         let greetingTime = start firstUtterance
         in Inr (if greetingTime \<le> 5 then 5 else 0))"

definition urgencyStep_en :: "int \<Rightarrow> Utterance_en \<Rightarrow> int" where
  "urgencyStep_en score utterance =
    (let text = toLowerCase (transcript utterance);
         hasUrgency = some_includes text urgencyKeywords_en
     in score + (if hasUrgency then 3 else 0))"

definition analyzeUrgency_en :: "Utterance_en list \<Rightarrow> int" where
  "analyzeUrgency_en utterances =
    (let urgencyScore = foldl urgencyStep_en 0 utterances in min 15 urgencyScore)"

definition rebuttalStep_en :: "int \<Rightarrow> Utterance_en \<Rightarrow> int" where
  "rebuttalStep_en score utterance =
    (let text = toLowerCase (transcript utterance);
         hasObjection = some_includes text objectionKeywords_en
     in score + (if hasObjection then 3 else 0))"

definition analyzeRebuttal_en :: "Utterance_en list \<Rightarrow> int" where
  "analyzeRebuttal_en utterances =
    (let rebuttalScore = foldl rebuttalStep_en 0 utterances in min 15 rebuttalScore)"

definition analyzeEtiquette_en :: "Sentiment_en \<Rightarrow> int" where
  "analyzeEtiquette_en s =
    (let baseScore = 10;
         sentimentScore = (if (case overall s of Some v \<Rightarrow> v > 0 | None \<Rightarrow> False) then 4 else 0)
     in min 15 (baseScore + sentimentScore))"

definition analyzeDisclaimer_en :: "Utterance_en list \<Rightarrow> int" where
  "analyzeDisclaimer_en utterances =
    (let hasDisclaimer = list_ex (\<lambda>utterance.
           some_includes (toLowerCase (transcript utterance)) disclaimerKeywords_en) utterances
     in if hasDisclaimer then 5 else 0)"

definition analyzeDisposition_en :: "Utterance_en list \<Rightarrow> Intent list \<Rightarrow> int" where
  "analyzeDisposition_en utterances intents =
    (let hasDisposition = list_ex (\<lambda>i. intent i = js ''disposition'' \<or> intent i = js ''category'')
           intents
     in if hasDisposition then 10 else 0)"

definition analyzeClosing_en :: "Utterance_en list \<Rightarrow> js_error + int" where
  "analyzeClosing_en utterances =
    (if length utterances = 0 then Inr 0
     else case js_index utterances (int (length utterances) - 1) of
       None \<Rightarrow> Inl TypeError
     | Some lastUtterance \<Rightarrow>
         let hasClosing = some_includes (toLowerCase (transcript lastUtterance)) closingKeywords_en
         in Inr (if hasClosing then 5 else 0))"

definition analyzeIdentification_en :: "Utterance_en list \<Rightarrow> int" where
  "analyzeIdentification_en utterances =
    (let hasIdentification = list_ex (\<lambda>utterance.
           some_includes (toLowerCase (transcript utterance)) idKeywords_en) utterances
     in if hasIdentification then 5 else 0)"

definition analyzeTapeDisclosure_en :: "Utterance_en list \<Rightarrow> int" where
  "analyzeTapeDisclosure_en utterances =
    (let hasDisclosure = list_ex (\<lambda>utterance.
           some_includes (toLowerCase (transcript utterance)) disclosureKeywords_en) utterances
     in if hasDisclosure then 10 else 0)"

definition analyzeToneLanguage_en :: "Sentiment_en \<Rightarrow> Utterance_en list \<Rightarrow> int" where
  "analyzeToneLanguage_en s utterances =
    (let hasNegativeLanguage = list_ex (\<lambda>utterance.
           some_includes (toLowerCase (transcript utterance)) negativeKeywords_en) utterances
     in if hasNegativeLanguage then 0 else 15)"

subsection \<open>Feedback and observation\<close>

text \<open>
  \<open>percentage.toFixed(1)\<close> for \<open>percentage = (totalScore / 100) * 100\<close>: the scores are
  integers, the double computed differs from \<open>totalScore\<close> by far less than 0.05, and
  the text is \<open>totalScore\<close> with one decimal, which is zero.
\<close>

definition toFixed1 :: "int \<Rightarrow> jsstring" where
  "toFixed1 n = js ((if n < 0 then ''-'' else []) @ decimal (nat \<bar>n\<bar>) @ ''.0'')"

definition generateOverallFeedback_en ::
  "(string \<times> int) list \<Rightarrow> Sentiment_en \<Rightarrow> jsstring \<Rightarrow> jsstring" where
  "generateOverallFeedback_en sc s summary =
    (let totalScore = foldl (\<lambda>a b. a + b) 0 (map snd sc);
         feedback = js ''Overall score: '' @ toFixed1 totalScore @ js ''%. '';
         feedback = feedback @
           (if summary \<noteq> [] then summary else js ''The call was processed successfully.'')
     in if (case overall s of Some v \<Rightarrow> v < 0 | None \<Rightarrow> False)
        then feedback @ js '' There were some negative sentiments detected.''
        else feedback)"

definition generateObservation_en ::
  "Utterance_en list \<Rightarrow> Topic_en list \<Rightarrow> Sentiment_en \<Rightarrow> jsstring" where
  "generateObservation_en utterances topics s =
    (let topicPart =
           (if length topics > 0
            then [js ''Main topics discussed: '' @ join (js '', '') (map topic_en topics)]
            else []);
         sentimentPart =
           (if overall s \<noteq> Some 0
            then [js ''Overall sentiment was '' @
                  (if (case overall s of Some v \<Rightarrow> v > 0 | None \<Rightarrow> False)
                   then js ''positive'' else js ''negative'')]
            else []);
         observations = topicPart @ sentimentPart;
         joined = join (js ''. '') observations
     in if joined = [] then fallbackObservation else joined)"

subsection \<open>The scoring step of POST\<close>

definition computeScores_en ::
  "Utterance_en list \<Rightarrow> Sentiment_en \<Rightarrow> Intent list \<Rightarrow> js_error + (string \<times> int) list" where
  "computeScores_en utterances s intents =
    (case analyzeGreeting_en utterances of
       Inl e \<Rightarrow> Inl e
     | Inr greeting \<Rightarrow>
        (case analyzeClosing_en utterances of
           Inl e \<Rightarrow> Inl e
         | Inr callClosing \<Rightarrow>
             Inr [(''greeting'', greeting),
                  (''collectionUrgency'', analyzeUrgency_en utterances),
                  (''rebuttalCustomerHandling'', analyzeRebuttal_en utterances),
                  (''callEtiquette'', analyzeEtiquette_en s),
                  (''callDisclaimer'', analyzeDisclaimer_en utterances),
                  (''correctDisposition'', analyzeDisposition_en utterances intents),
                  (''callClosing'', callClosing),
                  (''fatalIdentification'', analyzeIdentification_en utterances),
                  (''fatalTapeDiscloser'', analyzeTapeDisclosure_en utterances),
                  (''fatalToneLanguage'', analyzeToneLanguage_en s utterances)]))"

record Response_en = ResponseBody +
  parameters_echo :: "Parameter list"

definition POST_analyze_en ::
  "jsstring \<Rightarrow> Utterance_en list \<Rightarrow> Sentiment_en \<Rightarrow> Topic_en list \<Rightarrow> jsstring \<Rightarrow> Intent list
    \<Rightarrow> http_error + Response_en" where
  "POST_analyze_en transcriptText utterances s topics summary intents =
    (if transcriptText = [] then Inl (HttpError 500 ''Transcription failed'')
     else case computeScores_en utterances s intents of
       Inl e \<Rightarrow> Inl (HttpError 500 ''Processing failed'')
     | Inr sc \<Rightarrow>
         Inr \<lparr>scores = sc,
              overallFeedback = generateOverallFeedback_en sc s summary,
              observation = generateObservation_en utterances topics s,
              parameters_echo = parameters\<rparr>)"

section \<open>Predicates used in the statements\<close>

text \<open>
  A code unit that lower-casing neither changes nor produces from another one, and a term
  of such code units: lower-casing cannot create or destroy a match of it.
\<close>

definition caseless_unit :: "16 word \<Rightarrow> bool" where
  "caseless_unit c =
    (\<not> (0x41 \<le> c \<and> c \<le> 0x5A) \<and> \<not> (0x61 \<le> c \<and> c \<le> 0x7A) \<and>
     c \<noteq> 0x130 \<and> c \<noteq> 0x212A \<and> c \<noteq> 0x307)"

definition caseless :: "jsstring \<Rightarrow> bool" where
  "caseless k = list_all caseless_unit k"

text \<open>Every parameter of the registry has a score, between 0 and its weight.\<close>

definition within_weight :: "Parameter list \<Rightarrow> (string \<times> int) list \<Rightarrow> bool" where
  "within_weight ps sc =
    list_all (\<lambda>p. case map_of sc (key p) of Some v \<Rightarrow> 0 \<le> v \<and> v \<le> weight p | None \<Rightarrow> False) ps"

text \<open>Sample calls.\<close>

definition namaste_call :: "Utterance list" where
  "namaste_call =
    [\<lparr>transcript = [0x928, 0x92E, 0x938, 0x94D, 0x924, 0x947], start = 1, endT = 2,
      utt_sentiment = js ''neutral'', utt_sentiment_score = 0\<rparr>,
     \<lparr>transcript = [0x927, 0x928, 0x94D, 0x92F, 0x935, 0x93E, 0x926], start = 5, endT = 6,
      utt_sentiment = js ''neutral'', utt_sentiment_score = 0\<rparr>]"

definition hello_call :: "Utterance_en list" where
  "hello_call =
    [\<lparr>transcript = js ''Hello'', start = 2, endT = 4\<rparr>,
     \<lparr>transcript = js ''Thanks, bye'', start = 7, endT = 8\<rparr>]"

text \<open>
  A call of three utterances: a greeting, then a rebuttal term (U+0932 U+0947 U+0915 U+093F
  U+0928, "but") at index 1, then an objection term (U+0938 U+092E U+0938 U+094D U+092F
  U+093E, "problem") at index 2.
\<close>

definition rebuttal_then_objection :: "Utterance list" where
  "rebuttal_then_objection =
    [\<lparr>transcript = [0x928, 0x92E, 0x938, 0x94D, 0x924, 0x947], start = 1, endT = 2,
      utt_sentiment = js ''neutral'', utt_sentiment_score = 0\<rparr>,
     \<lparr>transcript = [0x932, 0x947, 0x915, 0x93F, 0x928], start = 3, endT = 4,
      utt_sentiment = js ''neutral'', utt_sentiment_score = 0\<rparr>,
     \<lparr>transcript = [0x938, 0x92E, 0x938, 0x94D, 0x92F, 0x93E], start = 5, endT = 6,
      utt_sentiment = js ''neutral'', utt_sentiment_score = 0\<rparr>]"

text \<open>The utterance has an objection term, the utterance has a rebuttal term.\<close>

definition hasObjection :: "Utterance \<Rightarrow> bool" where
  "hasObjection u = some_includes (toLowerCase (transcript u)) objectionKeywords"

definition hasRebuttal :: "Utterance \<Rightarrow> bool" where
  "hasRebuttal u = some_includes (toLowerCase (transcript u)) rebuttalKeywords"

text \<open>
  The text contains a term of the lexicon, as written or after lower-casing (the scorers
  search the lower-cased text).
\<close>

definition contains_term :: "jsstring \<Rightarrow> jsstring list \<Rightarrow> bool" where
  "contains_term text lexicon =
    list_ex (\<lambda>k. str_includes text k \<or> str_includes (toLowerCase text) k) lexicon"

text \<open>The score that a result of the scoring step holds under a key.\<close>

definition score_of :: "js_error + (string \<times> int) list \<Rightarrow> string \<Rightarrow> int option" where
  "score_of r k = (case r of Inl e \<Rightarrow> None | Inr sc \<Rightarrow> map_of sc k)"

text \<open>
  Every PASS_FAIL parameter of the list has a score, which is 0 or the full weight.
\<close>

definition awarded_all_or_nothing :: "Parameter list \<Rightarrow> (string \<times> int) list \<Rightarrow> bool" where
  "awarded_all_or_nothing ps sc =
    list_all (\<lambda>p. inputType p = PASS_FAIL \<longrightarrow>
      (case map_of sc (key p) of Some v \<Rightarrow> v = 0 \<or> v = weight p | None \<Rightarrow> False)) ps"

text \<open>The two parameters that the Hindi handler grades.\<close>

definition graded :: "Parameter \<Rightarrow> bool" where
  "graded p = (key p = ''correctDisposition'' \<or> key p = ''fatalToneLanguage'')"

text \<open>
  A call with one utterance, the disposition term U+0936 U+094D U+0930 U+0947 U+0923 U+0940
  ("category") without a causal connective.
\<close>

definition category_call :: "Utterance list" where
  "category_call =
    [\<lparr>transcript = [0x936, 0x94D, 0x930, 0x947, 0x923, 0x940], start = 40, endT = 41,
      utt_sentiment = js ''neutral'', utt_sentiment_score = 0\<rparr>]"

text \<open>
  The greeting rule in the words of the specification: only the first utterance is
  examined; the full weight 5 is awarded iff its start time is at most the greeting
  window and, when lexical confirmation is required, its text contains a term of the
  greeting lexicon; with no utterance the score is 0.
\<close>

definition greeting_spec ::
  "real \<Rightarrow> bool \<Rightarrow> jsstring list \<Rightarrow> 'a Utterance_en_scheme list \<Rightarrow> int" where
  "greeting_spec window lexical lexicon us =
    (case us of
       [] \<Rightarrow> 0
     | u # rest \<Rightarrow>
         if start u \<le> window \<and> (lexical \<longrightarrow> some_includes (toLowerCase (transcript u)) lexicon)
         then 5 else 0)"

text \<open>
  The two thank-you terms that \<open>analyzeClosing\<close> of the Hindi handler tests for
  (U+0927 U+0928 U+094D U+092F U+0935 U+093E U+0926 and U+0936 U+0941 U+0915 U+094D U+0930
  U+093F U+092F U+093E), and the thank-you terms of the English closing lexicon.
\<close>

definition gratitudeTerms :: "jsstring list" where
  "gratitudeTerms =
    [[0x927, 0x928, 0x94D, 0x92F, 0x935, 0x93E, 0x926],
     [0x936, 0x941, 0x915, 0x94D, 0x930, 0x93F, 0x92F, 0x93E]]"

definition gratitudeTerms_en :: "jsstring list" where
  "gratitudeTerms_en = [js ''thank'', js ''thanks'', js ''appreciate'']"

text \<open>
  No clause of the Hindi \<open>generateObservation\<close> fires on the utterances: no utterance
  has an objection term, some utterance has a disclosure term, some utterance has an
  identification term, and there is a last utterance, which has a closing term.
\<close>

definition no_observation_clause :: "Utterance list \<Rightarrow> bool" where
  "no_observation_clause us =
    (\<not> list_ex hasObjection us \<and>
     list_ex (\<lambda>u. some_includes (toLowerCase (transcript u)) disclosureKeywords) us \<and>
     list_ex (\<lambda>u. some_includes (toLowerCase (transcript u)) idKeywords) us \<and>
     us \<noteq> [] \<and> some_includes (toLowerCase (transcript (last us))) closingKeywords)"

text \<open>
  A call of one utterance with a disclosure term, an identification term and a closing
  term ("tape", "name", "thank you") and no objection term.
\<close>

definition quiet_call :: "Utterance list" where
  "quiet_call =
    [\<lparr>transcript = [0x91F, 0x947, 0x92A, 0x20, 0x928, 0x93E, 0x92E, 0x20,
                     0x927, 0x928, 0x94D, 0x92F, 0x935, 0x93E, 0x926],
      start = 1, endT = 2, utt_sentiment = js ''neutral'', utt_sentiment_score = 0\<rparr>]"

section \<open>Properties of the string operations\<close>

lemma str_includes_sublist: "str_includes t k \<longleftrightarrow> sublist k t"
  by (induction t) (simp_all add: sublist_Cons_right)

lemma toLowerCase_append: "toLowerCase (a @ b) = toLowerCase a @ toLowerCase b"
  by (simp add: toLowerCase_def)

lemma str_includes_toLowerCase:
  assumes "str_includes t k" and "toLowerCase k = k"
  shows "str_includes (toLowerCase t) k"
proof -
  from assms(1) obtain ps ss where "t = ps @ k @ ss"
    by (auto simp: str_includes_sublist sublist_def)
  then have "toLowerCase t = toLowerCase ps @ k @ toLowerCase ss"
    using assms(2) by (simp add: toLowerCase_append)
  then show ?thesis
    unfolding str_includes_sublist sublist_def by blast
qed

lemma toLowerUnit_caseless: "caseless_unit c \<Longrightarrow> toLowerUnit c = [c]"
  by (simp add: caseless_unit_def toLowerUnit_def)

lemma capital_lowered:
  fixes c :: "16 word"
  assumes "0x41 \<le> c" and "c \<le> 0x5A"
  shows "0x61 \<le> c + 0x20 \<and> c + 0x20 \<le> 0x7A"
  using assms by (auto simp: word_le_nat_alt unat_word_ariths)

lemma toLowerUnit_cased:
  assumes "\<not> caseless_unit c"
  shows "\<exists>d ds. toLowerUnit c = d # ds \<and> \<not> caseless_unit d \<and> (\<forall>e\<in>set ds. \<not> caseless_unit e)"
proof (cases "0x41 \<le> c \<and> c \<le> 0x5A")
  case True
  then have "toLowerUnit c = [c + 0x20]"
    by (simp add: toLowerUnit_def)
  moreover have "\<not> caseless_unit (c + 0x20)"
    using capital_lowered [of c] True by (simp add: caseless_unit_def)
  ultimately show ?thesis by simp
next
  case False
  show ?thesis
  proof (cases "c = 0x130 \<or> c = 0x212A")
    case True
    then show ?thesis
      by (auto simp add: toLowerUnit_def caseless_unit_def)
  next
    case other: False
    with False have "toLowerUnit c = [c]"
      by (simp add: toLowerUnit_def)
    with assms show ?thesis by simp
  qed
qed

lemma caseless_Cons: "caseless (x # xs) = (caseless_unit x \<and> caseless xs)"
  by (simp add: caseless_def)

lemma toLowerCase_caseless: "caseless k \<Longrightarrow> toLowerCase k = k"
  by (induction k) (simp_all add: caseless_Cons toLowerCase_def toLowerUnit_caseless)

lemma prefix_toLowerCase_caseless:
  "caseless k \<Longrightarrow> prefix k (toLowerCase t) = prefix k t"
proof (induction t arbitrary: k)
  case Nil
  then show ?case by (simp add: toLowerCase_def)
next
  case (Cons c cs)
  show ?case
  proof (cases k)
    case Nil
    then show ?thesis by simp
  next
    case k: (Cons x xs)
    with Cons.prems have x: "caseless_unit x" and xs: "caseless xs"
      by (simp_all add: caseless_Cons)
    have step: "toLowerCase (c # cs) = toLowerUnit c @ toLowerCase cs"
      by (simp add: toLowerCase_def)
    show ?thesis
    proof (cases "caseless_unit c")
      case True
      then show ?thesis
        using Cons.IH [OF xs] k by (simp add: step toLowerUnit_caseless)
    next
      case False
      then obtain d ds where "toLowerUnit c = d # ds" and "\<not> caseless_unit d"
        using toLowerUnit_cased by blast
      with x False k show ?thesis
        by (auto simp add: step)
    qed
  qed
qed

lemma str_includes_Nil: "str_includes t []"
  by (cases t) simp_all

lemma str_includes_skip_cased:
  assumes "caseless_unit x" and "\<forall>d\<in>set ds. \<not> caseless_unit d"
  shows "str_includes (ds @ r) (x # xs) = str_includes r (x # xs)"
  using assms(2)
proof (induction ds)
  case Nil
  then show ?case by simp
next
  case (Cons d ds)
  with assms(1) have "d \<noteq> x" by auto
  with Cons show ?case by simp
qed

lemma str_includes_toLowerCase_caseless:
  assumes "caseless k"
  shows "str_includes (toLowerCase t) k \<longleftrightarrow> str_includes t k"
proof (cases k)
  case Nil
  then show ?thesis by (simp add: str_includes_Nil)
next
  case k: (Cons x xs)
  with assms have x: "caseless_unit x"
    by (simp add: caseless_Cons)
  show ?thesis
  proof (induction t)
    case Nil
    then show ?case by (simp add: toLowerCase_def)
  next
    case (Cons c cs)
    have step: "toLowerCase (c # cs) = toLowerUnit c @ toLowerCase cs"
      by (simp add: toLowerCase_def)
    show ?case
    proof (cases "caseless_unit c")
      case True
      have "prefix k (c # toLowerCase cs) = prefix k (c # cs)"
        using prefix_toLowerCase_caseless [OF assms, of "c # cs"] True
        by (simp add: step toLowerUnit_caseless)
      with True Cons show ?thesis
        by (simp add: step toLowerUnit_caseless)
    next
      case False
      then obtain d ds where l: "toLowerUnit c = d # ds"
        and cased: "\<forall>e\<in>set (d # ds). \<not> caseless_unit e"
        using toLowerUnit_cased by fastforce
      have "str_includes (toLowerCase (c # cs)) k = str_includes (toLowerCase cs) k"
        unfolding step l k using str_includes_skip_cased [OF x cased] .
      moreover have "\<not> prefix k (c # cs)"
        using x False k by auto
      ultimately show ?thesis using Cons by simp
    qed
  qed
qed

section \<open>Properties of the scorers\<close>

lemmas lexicon_defs = greetingKeywords_def urgencyKeywords_def objectionKeywords_def
  rebuttalKeywords_def disclaimerKeywords_def dispositionKeywords_def closingKeywords_def
  idKeywords_def disclosureKeywords_def negativeKeywords_def

lemmas lexicon_en_defs = urgencyKeywords_en_def objectionKeywords_en_def
  disclaimerKeywords_en_def closingKeywords_en_def idKeywords_en_def disclosureKeywords_en_def
  negativeKeywords_en_def

lemmas string_defs = js_def toLowerCase_def toLowerUnit_def some_includes_def

lemma js_index_first: "xs \<noteq> [] \<Longrightarrow> js_index xs 0 = Some (hd xs)"
  by (cases xs) (simp_all add: js_index_def)

lemma js_index_last: "xs \<noteq> [] \<Longrightarrow> js_index xs (int (length xs) - 1) = Some (last xs)"
  by (simp add: js_index_def last_conv_nth nat_diff_distrib')

lemma analyzeGreeting_eq:
  "analyzeGreeting us =
    Inr (if us = [] then 0
         else if some_includes (toLowerCase (transcript (hd us))) greetingKeywords \<and> start (hd us) \<le> 3
         then 5 else 0)"
  by (simp add: analyzeGreeting_def js_index_first)

lemma analyzeGreeting_en_eq:
  "analyzeGreeting_en us = Inr (if us = [] then 0 else if start (hd us) \<le> 5 then 5 else 0)"
  by (simp add: analyzeGreeting_en_def js_index_first)

lemma analyzeClosing_eq:
  "analyzeClosing us =
    Inr (if us = [] then 0
         else if some_includes (toLowerCase (transcript (last us))) closingKeywords \<and>
                 (str_includes (toLowerCase (transcript (last us)))
                    [0x927, 0x928, 0x94D, 0x92F, 0x935, 0x93E, 0x926] \<or>
                  str_includes (toLowerCase (transcript (last us)))
                    [0x936, 0x941, 0x915, 0x94D, 0x930, 0x93F, 0x92F, 0x93E])
         then 5 else 0)"
  by (simp add: analyzeClosing_def js_index_last)

lemma analyzeClosing_en_eq:
  "analyzeClosing_en us =
    Inr (if us = [] then 0
         else if some_includes (toLowerCase (transcript (last us))) closingKeywords_en
         then 5 else 0)"
  by (simp add: analyzeClosing_en_def js_index_last)

lemma analyzeUrgency_range: "0 \<le> analyzeUrgency us \<and> analyzeUrgency us \<le> 15"
  by (simp add: analyzeUrgency_def Let_def)

lemma analyzeRebuttal_range: "0 \<le> analyzeRebuttal us \<and> analyzeRebuttal us \<le> 15"
  by (simp add: analyzeRebuttal_def Let_def)

lemma analyzeEtiquette_range: "0 \<le> analyzeEtiquette s \<and> analyzeEtiquette s \<le> 15"
  by (simp add: analyzeEtiquette_def Let_def)

lemma analyzeDisposition_values:
  "analyzeDisposition us ints = 0 \<or> analyzeDisposition us ints = 5 \<or> analyzeDisposition us ints = 10"
  by (simp add: analyzeDisposition_def Let_def)

lemma analyzeToneLanguage_values:
  "analyzeToneLanguage s us \<in> {0, 5, 10, 15}"
  by (simp add: analyzeToneLanguage_def Let_def)

lemma foldl_urgencyStep_en_nonneg: "0 \<le> a \<Longrightarrow> 0 \<le> foldl urgencyStep_en a us"
  by (induction us arbitrary: a) (simp_all add: urgencyStep_en_def Let_def)

lemma foldl_rebuttalStep_en_nonneg: "0 \<le> a \<Longrightarrow> 0 \<le> foldl rebuttalStep_en a us"
  by (induction us arbitrary: a) (simp_all add: rebuttalStep_en_def Let_def)

lemma analyzeUrgency_en_range: "0 \<le> analyzeUrgency_en us \<and> analyzeUrgency_en us \<le> 15"
  using foldl_urgencyStep_en_nonneg [of 0 us] by (simp add: analyzeUrgency_en_def Let_def)

lemma analyzeRebuttal_en_range: "0 \<le> analyzeRebuttal_en us \<and> analyzeRebuttal_en us \<le> 15"
  using foldl_rebuttalStep_en_nonneg [of 0 us] by (simp add: analyzeRebuttal_en_def Let_def)

lemma analyzeEtiquette_en_range: "0 \<le> analyzeEtiquette_en s \<and> analyzeEtiquette_en s \<le> 15"
  by (simp add: analyzeEtiquette_en_def Let_def)

lemma computeScores_eq:
  "computeScores us s ints =
    Inr [(''greeting'', projr (analyzeGreeting us)),
         (''collectionUrgency'', analyzeUrgency us),
         (''rebuttalCustomerHandling'', analyzeRebuttal us),
         (''callEtiquette'', analyzeEtiquette s),
         (''callDisclaimer'', analyzeDisclaimer us),
         (''correctDisposition'', analyzeDisposition us ints),
         (''callClosing'', projr (analyzeClosing us)),
         (''fatalIdentification'', analyzeIdentification us),
         (''fatalTapeDiscloser'', analyzeTapeDisclosure us),
         (''fatalToneLanguage'', analyzeToneLanguage s us)]"
  by (simp add: computeScores_def analyzeGreeting_eq analyzeClosing_eq)

lemma computeScores_en_eq:
  "computeScores_en us s ints =
    Inr [(''greeting'', projr (analyzeGreeting_en us)),
         (''collectionUrgency'', analyzeUrgency_en us),
         (''rebuttalCustomerHandling'', analyzeRebuttal_en us),
         (''callEtiquette'', analyzeEtiquette_en s),
         (''callDisclaimer'', analyzeDisclaimer_en us),
         (''correctDisposition'', analyzeDisposition_en us ints),
         (''callClosing'', projr (analyzeClosing_en us)),
         (''fatalIdentification'', analyzeIdentification_en us),
         (''fatalTapeDiscloser'', analyzeTapeDisclosure_en us),
         (''fatalToneLanguage'', analyzeToneLanguage_en s us)]"
  by (simp add: computeScores_en_def analyzeGreeting_en_eq analyzeClosing_en_eq)

lemma greeting_range: "0 \<le> projr (analyzeGreeting us) \<and> projr (analyzeGreeting us) \<le> 5"
  by (simp add: analyzeGreeting_eq)

lemma closing_range: "0 \<le> projr (analyzeClosing us) \<and> projr (analyzeClosing us) \<le> 5"
  by (simp add: analyzeClosing_eq)

lemma analyzeDisclaimer_range: "0 \<le> analyzeDisclaimer us \<and> analyzeDisclaimer us \<le> 5"
  by (simp add: analyzeDisclaimer_def Let_def)

lemma analyzeIdentification_range:
  "0 \<le> analyzeIdentification us \<and> analyzeIdentification us \<le> 5"
  by (simp add: analyzeIdentification_def Let_def)

lemma analyzeTapeDisclosure_range:
  "0 \<le> analyzeTapeDisclosure us \<and> analyzeTapeDisclosure us \<le> 10"
  by (simp add: analyzeTapeDisclosure_def Let_def)

lemma analyzeDisposition_range:
  "0 \<le> analyzeDisposition us ints \<and> analyzeDisposition us ints \<le> 10"
  by (simp add: analyzeDisposition_def Let_def)

lemma analyzeToneLanguage_range:
  "0 \<le> analyzeToneLanguage s us \<and> analyzeToneLanguage s us \<le> 15"
  by (simp add: analyzeToneLanguage_def Let_def)

lemma greeting_en_range:
  "0 \<le> projr (analyzeGreeting_en us) \<and> projr (analyzeGreeting_en us) \<le> 5"
  by (simp add: analyzeGreeting_en_eq)

lemma closing_en_range:
  "0 \<le> projr (analyzeClosing_en us) \<and> projr (analyzeClosing_en us) \<le> 5"
  by (simp add: analyzeClosing_en_eq)

lemma analyzeDisclaimer_en_range:
  "0 \<le> analyzeDisclaimer_en us \<and> analyzeDisclaimer_en us \<le> 5"
  by (simp add: analyzeDisclaimer_en_def Let_def)

lemma analyzeIdentification_en_range:
  "0 \<le> analyzeIdentification_en us \<and> analyzeIdentification_en us \<le> 5"
  by (simp add: analyzeIdentification_en_def Let_def)

lemma analyzeTapeDisclosure_en_range:
  "0 \<le> analyzeTapeDisclosure_en us \<and> analyzeTapeDisclosure_en us \<le> 10"
  by (simp add: analyzeTapeDisclosure_en_def Let_def)

lemma analyzeDisposition_en_range:
  "0 \<le> analyzeDisposition_en us ints \<and> analyzeDisposition_en us ints \<le> 10"
  by (simp add: analyzeDisposition_en_def Let_def)

lemma analyzeToneLanguage_en_range:
  "0 \<le> analyzeToneLanguage_en s us \<and> analyzeToneLanguage_en s us \<le> 15"
  by (simp add: analyzeToneLanguage_en_def Let_def)

lemma within_weight_hi: "within_weight parameters (projr (computeScores us s ints))"
  by (simp add: computeScores_eq within_weight_def parameters_def greeting_range
      analyzeUrgency_range analyzeRebuttal_range analyzeEtiquette_range analyzeDisclaimer_range
      analyzeDisposition_range closing_range analyzeIdentification_range
      analyzeTapeDisclosure_range analyzeToneLanguage_range)

lemma within_weight_en: "within_weight parameters (projr (computeScores_en us s ints))"
  by (simp add: computeScores_en_eq within_weight_def parameters_def greeting_en_range
      analyzeUrgency_en_range analyzeRebuttal_en_range analyzeEtiquette_en_range
      analyzeDisclaimer_en_range analyzeDisposition_en_range closing_en_range
      analyzeIdentification_en_range analyzeTapeDisclosure_en_range analyzeToneLanguage_en_range)

lemmas scorer_defs = analyzeGreeting_eq analyzeUrgency_def urgencyStep_def analyzeRebuttal_def
  rebuttalCounts_def rebuttalStep_def analyzeEtiquette_def analyzeDisclaimer_def
  analyzeDisposition_def analyzeClosing_eq analyzeIdentification_def analyzeTapeDisclosure_def
  analyzeToneLanguage_def

lemmas scorer_en_defs = analyzeGreeting_en_eq analyzeUrgency_en_def urgencyStep_en_def
  analyzeRebuttal_en_def rebuttalStep_en_def analyzeEtiquette_en_def analyzeDisclaimer_en_def
  analyzeDisposition_en_def analyzeClosing_en_eq analyzeIdentification_en_def
  analyzeTapeDisclosure_en_def analyzeToneLanguage_en_def

section \<open>Score bounds\<close>

text \<open>
  C1. For every call, in both handlers, the scoring step returns a score for each of the
  ten parameter keys of the registry, each score lies between 0 and the weight of its
  parameter, and the weights of the registry sum to 100.
\<close>

theorem scores_within_weights:
  "sum_list (map weight parameters) = 100 \<and>
   (\<exists>sc. computeScores us s ints = Inr sc \<and> within_weight parameters sc) \<and>
   (\<exists>sc. computeScores_en us' s' ints' = Inr sc \<and> within_weight parameters sc)"
proof (intro conjI)
  show "sum_list (map weight parameters) = 100"
    by (simp add: parameters_def)
  show "\<exists>sc. computeScores us s ints = Inr sc \<and> within_weight parameters sc"
    using within_weight_hi [of us s ints] by (simp add: computeScores_eq)
  show "\<exists>sc. computeScores_en us' s' ints' = Inr sc \<and> within_weight parameters sc"
    using within_weight_en [of us' s' ints'] by (simp add: computeScores_en_eq)
qed

theorem scores_within_weights_witness:
  "computeScores namaste_call \<lparr>sentiment = js ''positive'', sentiment_score = 0.5\<rparr> [] =
     Inr [(''greeting'', 5), (''collectionUrgency'', 0), (''rebuttalCustomerHandling'', 0),
          (''callEtiquette'', 15), (''callDisclaimer'', 0), (''correctDisposition'', 0),
          (''callClosing'', 5), (''fatalIdentification'', 0), (''fatalTapeDiscloser'', 0),
          (''fatalToneLanguage'', 15)] \<and>
   within_weight parameters
     [(''greeting'', 5), (''collectionUrgency'', 0), (''rebuttalCustomerHandling'', 0),
      (''callEtiquette'', 15), (''callDisclaimer'', 0), (''correctDisposition'', 0),
      (''callClosing'', 5), (''fatalIdentification'', 0), (''fatalTapeDiscloser'', 0),
      (''fatalToneLanguage'', 15)] \<and>
   (\<exists>sc. computeScores_en hello_call \<lparr>overall = Some 0.5\<rparr> [] = Inr sc \<and>
      within_weight parameters sc)"
proof -
  have ev: "computeScores namaste_call \<lparr>sentiment = js ''positive'', sentiment_score = 0.5\<rparr> [] =
     Inr [(''greeting'', 5), (''collectionUrgency'', 0), (''rebuttalCustomerHandling'', 0),
          (''callEtiquette'', 15), (''callDisclaimer'', 0), (''correctDisposition'', 0),
          (''callClosing'', 5), (''fatalIdentification'', 0), (''fatalTapeDiscloser'', 0),
          (''fatalToneLanguage'', 15)]"
    by (simp add: computeScores_eq namaste_call_def scorer_defs lexicon_defs string_defs)
  from scores_within_weights
    [of namaste_call "\<lparr>sentiment = js ''positive'', sentiment_score = 0.5\<rparr>" "[]"
        hello_call "\<lparr>overall = Some 0.5\<rparr>" "[]"]
  show ?thesis unfolding ev by simp
qed

section \<open>Rebuttal scoring\<close>

text \<open>
  The guard \<open>index > lastObjectionIndex\<close> only excludes the utterance that holds an
  objection itself: the rebuttal count is the number of utterances with a rebuttal term
  and no objection term, wherever the objections are.
\<close>

lemma rebuttalLoop_counts:
  "lastObjectionIndex st < i \<Longrightarrow>
   objectionCount (rebuttalLoop st i us) = objectionCount st + int (length (filter hasObjection us)) \<and>
   rebuttalCount (rebuttalLoop st i us) =
     rebuttalCount st + int (length (filter (\<lambda>u. hasRebuttal u \<and> \<not> hasObjection u) us))"
proof (induction us arbitrary: st i)
  case Nil
  then show ?case by simp
next
  case (Cons u us)
  have "lastObjectionIndex (rebuttalStep st u i) < i + 1"
    using Cons.prems by (simp add: rebuttalStep_def Let_def)
  from Cons.IH [OF this] Cons.prems show ?case
    by (simp add: rebuttalStep_def hasObjection_def hasRebuttal_def Let_def)
qed

lemma rebuttalCounts_eq:
  "objectionCount (rebuttalCounts us) = int (length (filter hasObjection us)) \<and>
   rebuttalCount (rebuttalCounts us) =
     int (length (filter (\<lambda>u. hasRebuttal u \<and> \<not> hasObjection u) us))"
  using rebuttalLoop_counts
    [of "\<lparr>objectionCount = 0, rebuttalCount = 0, lastObjectionIndex = - 1\<rparr>" 0 us]
  by (simp add: rebuttalCounts_def)

lemma analyzeRebuttal_no_objection:
  "filter hasObjection us = [] \<Longrightarrow> analyzeRebuttal us = 0"
  by (simp add: analyzeRebuttal_def rebuttalCounts_eq Let_def)

text \<open>
  C2. A rebuttal counts only after an objection, and without objections the score is 0.
  On the call \<open>rebuttal_then_objection\<close> the rebuttal at index 1 precedes the only
  objection, at index 2, and is counted all the same: the handler counts one rebuttal
  and returns 5, where an uncounted rebuttal gives 2 - 2 = 0.
\<close>

theorem analyzeRebuttal_counts_earlier_rebuttal:
  "objectionCount (rebuttalCounts rebuttal_then_objection) = 1 \<and>
   lastObjectionIndex (rebuttalCounts rebuttal_then_objection) = 2 \<and>
   rebuttalCount (rebuttalCounts rebuttal_then_objection) = 1 \<and>
   analyzeRebuttal rebuttal_then_objection = 5"
  by (simp add: rebuttal_then_objection_def analyzeRebuttal_def rebuttalCounts_def
      rebuttalStep_def lexicon_defs string_defs)

section \<open>Disclaimer and tape disclosure\<close>

lemma disclosureKeywords_same: "disclosureKeywords = disclaimerKeywords"
  by (simp add: disclosureKeywords_def disclaimerKeywords_def)

lemma disclosureKeywords_en_same: "disclosureKeywords_en = disclaimerKeywords_en"
  by (simp add: disclosureKeywords_en_def disclaimerKeywords_en_def)

text \<open>
  C9. In both handlers the Call Disclaimer scorer returns 5 exactly when the Tape
  Disclosure scorer returns 10.
\<close>

theorem disclaimer_iff_tape_disclosure:
  "(analyzeDisclaimer us = 5 \<longleftrightarrow> analyzeTapeDisclosure us = 10) \<and>
   (analyzeDisclaimer_en us' = 5 \<longleftrightarrow> analyzeTapeDisclosure_en us' = 10)"
  by (simp add: analyzeDisclaimer_def analyzeTapeDisclosure_def analyzeDisclaimer_en_def
      analyzeTapeDisclosure_en_def disclosureKeywords_same disclosureKeywords_en_same Let_def)

theorem disclaimer_iff_tape_disclosure_witness:
  "analyzeDisclaimer
     [\<lparr>transcript = [0x91F, 0x947, 0x92A], start = 10, endT = 11,
       utt_sentiment = js ''neutral'', utt_sentiment_score = 0\<rparr>] = 5 \<and>
   analyzeTapeDisclosure
     [\<lparr>transcript = [0x91F, 0x947, 0x92A], start = 10, endT = 11,
       utt_sentiment = js ''neutral'', utt_sentiment_score = 0\<rparr>] = 10 \<and>
   analyzeDisclaimer_en [\<lparr>transcript = js ''on tape'', start = 100, endT = 101\<rparr>] = 5 \<and>
   analyzeTapeDisclosure_en [\<lparr>transcript = js ''on tape'', start = 100, endT = 101\<rparr>] = 10"
proof -
  have a: "analyzeDisclaimer
     [\<lparr>transcript = [0x91F, 0x947, 0x92A], start = 10, endT = 11,
       utt_sentiment = js ''neutral'', utt_sentiment_score = 0\<rparr>] = 5"
    by (simp add: analyzeDisclaimer_def disclaimerKeywords_def string_defs)
  have b: "analyzeDisclaimer_en [\<lparr>transcript = js ''on tape'', start = 100, endT = 101\<rparr>] = 5"
    by (simp add: analyzeDisclaimer_en_def disclaimerKeywords_en_def string_defs)
  from a b disclaimer_iff_tape_disclosure
    [of "[\<lparr>transcript = [0x91F, 0x947, 0x92A], start = 10, endT = 11,
           utt_sentiment = js ''neutral'', utt_sentiment_score = 0\<rparr>]"
        "[\<lparr>transcript = js ''on tape'', start = 100, endT = 101\<rparr>]"]
  show ?thesis by simp
qed

section \<open>Call etiquette\<close>

text \<open>
  C10. The Call Etiquette score depends only on the call-level sentiment: two calls with
  equal call-level sentiment values get the same Call Etiquette score from the scoring
  step, whatever their utterances and intents (topics are not read by the scoring step).
\<close>

theorem etiquette_depends_only_on_sentiment:
  assumes "sentiment_score s1 = sentiment_score s2" and "overall e1 = overall e2"
  shows "analyzeEtiquette s1 = analyzeEtiquette s2 \<and>
         score_of (computeScores us1 s1 ints1) ''callEtiquette'' = Some (analyzeEtiquette s1) \<and>
         score_of (computeScores us2 s2 ints2) ''callEtiquette'' = Some (analyzeEtiquette s1) \<and>
         analyzeEtiquette_en e1 = analyzeEtiquette_en e2 \<and>
         score_of (computeScores_en vs1 e1 ints1) ''callEtiquette'' = Some (analyzeEtiquette_en e1) \<and>
         score_of (computeScores_en vs2 e2 ints2) ''callEtiquette'' = Some (analyzeEtiquette_en e1)"
  using assms
  by (simp add: score_of_def computeScores_eq computeScores_en_eq analyzeEtiquette_def
      analyzeEtiquette_en_def)

theorem etiquette_depends_only_on_sentiment_witness:
  "score_of (computeScores namaste_call \<lparr>sentiment = js ''positive'', sentiment_score = 0.2\<rparr> [])
     ''callEtiquette'' = Some 11 \<and>
   score_of (computeScores rebuttal_then_objection
       \<lparr>sentiment = js ''neutral'', sentiment_score = 0.2\<rparr>
       [\<lparr>intent = js ''category'', confidence = 1\<rparr>])
     ''callEtiquette'' = Some 11 \<and>
   score_of (computeScores_en hello_call \<lparr>overall = Some 0.2\<rparr> []) ''callEtiquette'' = Some 14 \<and>
   score_of (computeScores_en [] \<lparr>overall = Some 0.2\<rparr> [\<lparr>intent = js ''category'', confidence = 1\<rparr>])
     ''callEtiquette'' = Some 14"
proof -
  have a: "analyzeEtiquette \<lparr>sentiment = js ''positive'', sentiment_score = 0.2\<rparr> = 11"
    by (simp add: analyzeEtiquette_def)
  have b: "analyzeEtiquette_en \<lparr>overall = Some 0.2\<rparr> = 14"
    by (simp add: analyzeEtiquette_en_def)
  have "sentiment_score \<lparr>sentiment = js ''positive'', sentiment_score = 0.2\<rparr> =
        sentiment_score \<lparr>sentiment = js ''neutral'', sentiment_score = 0.2\<rparr>"
    by simp
  moreover have "overall \<lparr>overall = Some 0.2\<rparr> = overall \<lparr>overall = Some 0.2\<rparr>"
    by simp
  ultimately show ?thesis
    using etiquette_depends_only_on_sentiment
      [where ?s1.0 = "\<lparr>sentiment = js ''positive'', sentiment_score = 0.2\<rparr>"
         and ?s2.0 = "\<lparr>sentiment = js ''neutral'', sentiment_score = 0.2\<rparr>"
         and ?e1.0 = "\<lparr>overall = Some 0.2\<rparr>" and ?e2.0 = "\<lparr>overall = Some 0.2\<rparr>"
         and ?us1.0 = namaste_call and ?ints1.0 = "[]"
         and ?us2.0 = rebuttal_then_objection
         and ?ints2.0 = "[\<lparr>intent = js ''category'', confidence = 1\<rparr>]"
         and ?vs1.0 = hello_call and ?vs2.0 = "[]"]
    unfolding a b by simp
qed

section \<open>Tone and language\<close>

lemma contains_term_some_includes:
  assumes "contains_term t lexicon" and "list_all (\<lambda>k. toLowerCase k = k) lexicon"
  shows "some_includes (toLowerCase t) lexicon"
proof -
  from assms(1) obtain k where k: "k \<in> set lexicon"
    and "str_includes t k \<or> str_includes (toLowerCase t) k"
    by (auto simp: contains_term_def list_ex_iff)
  moreover from k assms(2) have "toLowerCase k = k"
    by (simp add: list_all_iff)
  ultimately have "str_includes (toLowerCase t) k"
    using str_includes_toLowerCase by blast
  with k show ?thesis
    by (auto simp: some_includes_def list_ex_iff)
qed

lemma negativeKeywords_lower: "list_all (\<lambda>k. toLowerCase k = k) negativeKeywords"
  by (simp add: negativeKeywords_def toLowerCase_def toLowerUnit_def)

lemma negativeKeywords_en_lower: "list_all (\<lambda>k. toLowerCase k = k) negativeKeywords_en"
  by (simp add: negativeKeywords_en_def toLowerCase_def toLowerUnit_def js_def)

text \<open>
  C5. If any utterance contains a term of the negative-language lexicon, the Tone and
  Language score is 0, whatever the call-level sentiment, in both handlers.
\<close>

theorem negative_language_forces_zero:
  "(list_ex (\<lambda>u. contains_term (transcript u) negativeKeywords) us \<longrightarrow>
      analyzeToneLanguage s us = 0) \<and>
   (list_ex (\<lambda>u. contains_term (transcript u) negativeKeywords_en) us' \<longrightarrow>
      analyzeToneLanguage_en s' us' = 0)"
proof (intro conjI impI)
  assume "list_ex (\<lambda>u. contains_term (transcript u) negativeKeywords) us"
  then have "list_ex (\<lambda>u. some_includes (toLowerCase (transcript u)) negativeKeywords) us"
    unfolding list_ex_iff
    using contains_term_some_includes [OF _ negativeKeywords_lower] by blast
  then show "analyzeToneLanguage s us = 0"
    by (simp add: analyzeToneLanguage_def)
next
  assume "list_ex (\<lambda>u. contains_term (transcript u) negativeKeywords_en) us'"
  then have "list_ex (\<lambda>u. some_includes (toLowerCase (transcript u)) negativeKeywords_en) us'"
    unfolding list_ex_iff
    using contains_term_some_includes [OF _ negativeKeywords_en_lower] by blast
  then show "analyzeToneLanguage_en s' us' = 0"
    by (simp add: analyzeToneLanguage_en_def)
qed

theorem negative_language_forces_zero_witness:
  "analyzeToneLanguage \<lparr>sentiment = js ''positive'', sentiment_score = 0.9\<rparr>
     [\<lparr>transcript = [0x928, 0x92E, 0x938, 0x94D, 0x924, 0x947], start = 1, endT = 2,
       utt_sentiment = js ''positive'', utt_sentiment_score = 0.9\<rparr>,
      \<lparr>transcript = [0x92F, 0x939, 0x20, 0x927, 0x92E, 0x915, 0x940, 0x20, 0x939, 0x948],
       start = 3, endT = 4, utt_sentiment = js ''positive'', utt_sentiment_score = 0.9\<rparr>] = 0 \<and>
   analyzeToneLanguage_en \<lparr>overall = Some 0.9\<rparr>
     [\<lparr>transcript = js ''You are rude'', start = 3, endT = 4\<rparr>] = 0"
proof -
  have a: "list_ex (\<lambda>u. contains_term (transcript u) negativeKeywords)
     [\<lparr>transcript = [0x928, 0x92E, 0x938, 0x94D, 0x924, 0x947], start = 1, endT = 2,
       utt_sentiment = js ''positive'', utt_sentiment_score = 0.9\<rparr>,
      \<lparr>transcript = [0x92F, 0x939, 0x20, 0x927, 0x92E, 0x915, 0x940, 0x20, 0x939, 0x948],
       start = 3, endT = 4, utt_sentiment = js ''positive'', utt_sentiment_score = 0.9\<rparr>]"
    by (simp add: contains_term_def negativeKeywords_def)
  have b: "list_ex (\<lambda>u. contains_term (transcript u) negativeKeywords_en)
     [\<lparr>transcript = js ''You are rude'', start = 3, endT = 4\<rparr>]"
    by (simp add: contains_term_def negativeKeywords_en_def js_def)
  from a b negative_language_forces_zero
    [where us = "[\<lparr>transcript = [0x928, 0x92E, 0x938, 0x94D, 0x924, 0x947], start = 1, endT = 2,
       utt_sentiment = js ''positive'', utt_sentiment_score = 0.9\<rparr>,
      \<lparr>transcript = [0x92F, 0x939, 0x20, 0x927, 0x92E, 0x915, 0x940, 0x20, 0x939, 0x948],
       start = 3, endT = 4, utt_sentiment = js ''positive'', utt_sentiment_score = 0.9\<rparr>]"
      and us' = "[\<lparr>transcript = js ''You are rude'', start = 3, endT = 4\<rparr>]"
      and s = "\<lparr>sentiment = js ''positive'', sentiment_score = 0.9\<rparr>"
      and s' = "\<lparr>overall = Some 0.9\<rparr>"]
  show ?thesis by blast
qed

section \<open>Calls without utterances\<close>

lemma empty_scores:
  "analyzeUrgency [] = 0" "analyzeRebuttal [] = 0" "analyzeDisclaimer [] = 0"
  "analyzeIdentification [] = 0" "analyzeTapeDisclosure [] = 0"
  "analyzeUrgency_en [] = 0" "analyzeRebuttal_en [] = 0" "analyzeDisclaimer_en [] = 0"
  "analyzeIdentification_en [] = 0" "analyzeTapeDisclosure_en [] = 0"
  "analyzeToneLanguage_en e [] = 15"
  by (simp_all add: analyzeUrgency_def analyzeRebuttal_def rebuttalCounts_def
      analyzeDisclaimer_def analyzeIdentification_def analyzeTapeDisclosure_def
      analyzeUrgency_en_def analyzeRebuttal_en_def analyzeDisclaimer_en_def
      analyzeIdentification_en_def analyzeTapeDisclosure_en_def analyzeToneLanguage_en_def)

lemma generateObservation_empty:
  "generateObservation [] [] s =
     js ''Agent missed tape disclosure. Customer identification was not properly verified. Call ended without proper closing''"
  by (simp add: generateObservation_def observationScan_def js_index_def js_def)

text \<open>
  C7. For a call without utterances no scorer throws: greeting, urgency, rebuttal,
  disclaimer, closing, identification and tape disclosure score 0 (disposition is left to
  the intents, etiquette and tone to the call sentiment), the observation is built from
  the clauses that fire on no utterance, and \<open>POST\<close> returns its response instead of
  the status 500 of a caught exception.
\<close>

theorem empty_utterances_do_not_raise:
  "analyzeGreeting [] = Inr 0 \<and> analyzeClosing [] = Inr 0 \<and>
   analyzeGreeting_en [] = Inr 0 \<and> analyzeClosing_en [] = Inr 0 \<and>
   analyzeDisposition [] [] = 0 \<and> analyzeDisposition_en [] [] = 0 \<and>
   computeScores [] s ints =
     Inr [(''greeting'', 0), (''collectionUrgency'', 0), (''rebuttalCustomerHandling'', 0),
          (''callEtiquette'', analyzeEtiquette s), (''callDisclaimer'', 0),
          (''correctDisposition'', analyzeDisposition [] ints), (''callClosing'', 0),
          (''fatalIdentification'', 0), (''fatalTapeDiscloser'', 0),
          (''fatalToneLanguage'', analyzeToneLanguage s [])] \<and>
   computeScores_en [] e ints =
     Inr [(''greeting'', 0), (''collectionUrgency'', 0), (''rebuttalCustomerHandling'', 0),
          (''callEtiquette'', analyzeEtiquette_en e), (''callDisclaimer'', 0),
          (''correctDisposition'', analyzeDisposition_en [] ints), (''callClosing'', 0),
          (''fatalIdentification'', 0), (''fatalTapeDiscloser'', 0),
          (''fatalToneLanguage'', 15)] \<and>
   generateObservation [] [] s =
     js ''Agent missed tape disclosure. Customer identification was not properly verified. Call ended without proper closing'' \<and>
   generateObservation_en [] [] \<lparr>overall = Some 0\<rparr> = fallbackObservation \<and>
   (\<exists>r. POST_analyze (c # t) [] s topics ints = Inr r \<and>
        observation r = generateObservation [] topics s \<and>
        overallFeedback r = generateOverallFeedback (scores r) s) \<and>
   (\<exists>r. POST_analyze_en (c # t) [] e topics' summary ints = Inr r \<and>
        observation r = generateObservation_en [] topics' e \<and>
        overallFeedback r = generateOverallFeedback_en (scores r) e summary)"
proof (intro conjI)
  show "generateObservation [] [] s =
     js ''Agent missed tape disclosure. Customer identification was not properly verified. Call ended without proper closing''"
    by (rule generateObservation_empty)
  show "generateObservation_en [] [] \<lparr>overall = Some 0\<rparr> = fallbackObservation"
    by (simp add: generateObservation_en_def)
  show "\<exists>r. POST_analyze (c # t) [] s topics ints = Inr r \<and>
        observation r = generateObservation [] topics s \<and>
        overallFeedback r = generateOverallFeedback (scores r) s"
    by (simp add: POST_analyze_def computeScores_eq)
  show "\<exists>r. POST_analyze_en (c # t) [] e topics' summary ints = Inr r \<and>
        observation r = generateObservation_en [] topics' e \<and>
        overallFeedback r = generateOverallFeedback_en (scores r) e summary"
    by (simp add: POST_analyze_en_def computeScores_en_eq)
qed (simp_all add: computeScores_eq computeScores_en_eq analyzeGreeting_eq analyzeClosing_eq
    analyzeGreeting_en_eq analyzeClosing_en_eq empty_scores analyzeDisposition_def
    analyzeDisposition_en_def)

theorem empty_utterances_do_not_raise_witness:
  "computeScores [] \<lparr>sentiment = js ''neutral'', sentiment_score = 0\<rparr> [] =
     Inr [(''greeting'', 0), (''collectionUrgency'', 0), (''rebuttalCustomerHandling'', 0),
          (''callEtiquette'', 5), (''callDisclaimer'', 0), (''correctDisposition'', 0),
          (''callClosing'', 0), (''fatalIdentification'', 0), (''fatalTapeDiscloser'', 0),
          (''fatalToneLanguage'', 10)] \<and>
   computeScores_en [] \<lparr>overall = Some 0\<rparr> [] =
     Inr [(''greeting'', 0), (''collectionUrgency'', 0), (''rebuttalCustomerHandling'', 0),
          (''callEtiquette'', 10), (''callDisclaimer'', 0), (''correctDisposition'', 0),
          (''callClosing'', 0), (''fatalIdentification'', 0), (''fatalTapeDiscloser'', 0),
          (''fatalToneLanguage'', 15)] \<and>
   (\<exists>r. POST_analyze (js ''...'') [] \<lparr>sentiment = js ''neutral'', sentiment_score = 0\<rparr> [] [] = Inr r) \<and>
   (\<exists>r. POST_analyze_en (js ''...'') [] \<lparr>overall = Some 0\<rparr> [] [] [] = Inr r)"
proof -
  have a: "analyzeEtiquette \<lparr>sentiment = js ''neutral'', sentiment_score = 0\<rparr> = 5"
    "analyzeToneLanguage \<lparr>sentiment = js ''neutral'', sentiment_score = 0\<rparr> [] = 10"
    "analyzeEtiquette_en \<lparr>overall = Some 0\<rparr> = 10"
    "analyzeDisposition [] [] = 0" "analyzeDisposition_en [] [] = 0"
    by (simp_all add: analyzeEtiquette_def analyzeToneLanguage_def analyzeEtiquette_en_def
        analyzeDisposition_def analyzeDisposition_en_def)
  have b: "js ''...'' = 0x2E # js ''..''"
    by (simp add: js_def)
  from empty_utterances_do_not_raise
    [where s = "\<lparr>sentiment = js ''neutral'', sentiment_score = 0\<rparr>" and ints = "[]"
       and e = "\<lparr>overall = Some 0\<rparr>" and c = "0x2E" and t = "js ''..''" and topics = "[]"
       and topics' = "[]" and summary = "[]"]
  show ?thesis unfolding a b by blast
qed

section \<open>PASS_FAIL parameters\<close>

lemma analyzeDisclaimer_values: "analyzeDisclaimer us = 0 \<or> analyzeDisclaimer us = 5"
  by (simp add: analyzeDisclaimer_def Let_def)

lemma analyzeIdentification_values: "analyzeIdentification us = 0 \<or> analyzeIdentification us = 5"
  by (simp add: analyzeIdentification_def Let_def)

lemma analyzeTapeDisclosure_values: "analyzeTapeDisclosure us = 0 \<or> analyzeTapeDisclosure us = 10"
  by (simp add: analyzeTapeDisclosure_def Let_def)

lemma greeting_values: "projr (analyzeGreeting us) = 0 \<or> projr (analyzeGreeting us) = 5"
  by (simp add: analyzeGreeting_eq)

lemma closing_values: "projr (analyzeClosing us) = 0 \<or> projr (analyzeClosing us) = 5"
  by (simp add: analyzeClosing_eq)

lemma analyzeDisclaimer_en_values: "analyzeDisclaimer_en us = 0 \<or> analyzeDisclaimer_en us = 5"
  by (simp add: analyzeDisclaimer_en_def Let_def)

lemma analyzeIdentification_en_values:
  "analyzeIdentification_en us = 0 \<or> analyzeIdentification_en us = 5"
  by (simp add: analyzeIdentification_en_def Let_def)

lemma analyzeTapeDisclosure_en_values:
  "analyzeTapeDisclosure_en us = 0 \<or> analyzeTapeDisclosure_en us = 10"
  by (simp add: analyzeTapeDisclosure_en_def Let_def)

lemma analyzeDisposition_en_values:
  "analyzeDisposition_en us ints = 0 \<or> analyzeDisposition_en us ints = 10"
  by (simp add: analyzeDisposition_en_def Let_def)

lemma analyzeToneLanguage_en_values:
  "analyzeToneLanguage_en s us = 0 \<or> analyzeToneLanguage_en s us = 15"
  by (simp add: analyzeToneLanguage_en_def Let_def)

lemma greeting_en_values: "projr (analyzeGreeting_en us) = 0 \<or> projr (analyzeGreeting_en us) = 5"
  by (simp add: analyzeGreeting_en_eq)

lemma closing_en_values: "projr (analyzeClosing_en us) = 0 \<or> projr (analyzeClosing_en us) = 5"
  by (simp add: analyzeClosing_en_eq)

lemma all_or_nothing_en:
  "awarded_all_or_nothing parameters (projr (computeScores_en us s ints))"
  by (simp add: computeScores_en_eq awarded_all_or_nothing_def parameters_def greeting_en_values
      analyzeDisclaimer_en_values analyzeDisposition_en_values closing_en_values
      analyzeIdentification_en_values analyzeTapeDisclosure_en_values
      analyzeToneLanguage_en_values)

lemma all_or_nothing_hi:
  "awarded_all_or_nothing (filter (\<lambda>p. \<not> graded p) parameters) (projr (computeScores us s ints))"
  by (simp add: computeScores_eq awarded_all_or_nothing_def parameters_def graded_def
      greeting_values analyzeDisclaimer_values closing_values analyzeIdentification_values
      analyzeTapeDisclosure_values)

text \<open>
  C3, as stated: every PASS_FAIL parameter is awarded 0 or its full weight, and
  correctDisposition is always 0 or 10. The Hindi handler awards 5 of 10 to a call that
  names a disposition term without a causal connective.
\<close>

theorem disposition_partial_credit:
  "computeScores category_call \<lparr>sentiment = js ''positive'', sentiment_score = 0.5\<rparr> [] =
     Inr [(''greeting'', 0), (''collectionUrgency'', 0), (''rebuttalCustomerHandling'', 0),
          (''callEtiquette'', 15), (''callDisclaimer'', 0), (''correctDisposition'', 5),
          (''callClosing'', 0), (''fatalIdentification'', 0), (''fatalTapeDiscloser'', 0),
          (''fatalToneLanguage'', 15)] \<and>
   \<not> awarded_all_or_nothing parameters
     [(''greeting'', 0), (''collectionUrgency'', 0), (''rebuttalCustomerHandling'', 0),
      (''callEtiquette'', 15), (''callDisclaimer'', 0), (''correctDisposition'', 5),
      (''callClosing'', 0), (''fatalIdentification'', 0), (''fatalTapeDiscloser'', 0),
      (''fatalToneLanguage'', 15)]"
proof
  show "computeScores category_call \<lparr>sentiment = js ''positive'', sentiment_score = 0.5\<rparr> [] =
     Inr [(''greeting'', 0), (''collectionUrgency'', 0), (''rebuttalCustomerHandling'', 0),
          (''callEtiquette'', 15), (''callDisclaimer'', 0), (''correctDisposition'', 5),
          (''callClosing'', 0), (''fatalIdentification'', 0), (''fatalTapeDiscloser'', 0),
          (''fatalToneLanguage'', 15)]"
    by (simp add: computeScores_eq category_call_def scorer_defs lexicon_defs string_defs)
  show "\<not> awarded_all_or_nothing parameters
     [(''greeting'', 0), (''collectionUrgency'', 0), (''rebuttalCustomerHandling'', 0),
      (''callEtiquette'', 15), (''callDisclaimer'', 0), (''correctDisposition'', 5),
      (''callClosing'', 0), (''fatalIdentification'', 0), (''fatalTapeDiscloser'', 0),
      (''fatalToneLanguage'', 15)]"
    by (simp add: awarded_all_or_nothing_def parameters_def)
qed

text \<open>
  C3, amended. In the English handler every PASS_FAIL parameter is awarded 0 or its full
  weight. In the Hindi handler that holds for greeting, callDisclaimer, callClosing,
  fatalIdentification and fatalTapeDiscloser; correctDisposition is awarded 0, 5 or 10
  and fatalToneLanguage 0, 5, 10 or 15. The intermediate values occur: the call
  \<open>category_call\<close> is awarded 5 for correctDisposition, and for fatalToneLanguage 5 at
  call sentiment -0.2 and 10 at call sentiment 0.
\<close>

theorem pass_fail_scores:
  "(\<exists>sc. computeScores_en us' s' ints' = Inr sc \<and> awarded_all_or_nothing parameters sc) \<and>
   (\<exists>sc. computeScores us s ints = Inr sc \<and>
      awarded_all_or_nothing (filter (\<lambda>p. \<not> graded p) parameters) sc \<and>
      map_of sc ''correctDisposition'' \<in> {Some 0, Some 5, Some 10} \<and>
      map_of sc ''fatalToneLanguage'' \<in> {Some 0, Some 5, Some 10, Some 15}) \<and>
   score_of (computeScores category_call \<lparr>sentiment = js ''negative'', sentiment_score = - 0.2\<rparr> [])
     ''correctDisposition'' = Some 5 \<and>
   score_of (computeScores category_call \<lparr>sentiment = js ''negative'', sentiment_score = - 0.2\<rparr> [])
     ''fatalToneLanguage'' = Some 5 \<and>
   score_of (computeScores category_call \<lparr>sentiment = js ''neutral'', sentiment_score = 0\<rparr> [])
     ''fatalToneLanguage'' = Some 10"
proof (intro conjI)
  show "score_of (computeScores category_call
      \<lparr>sentiment = js ''negative'', sentiment_score = - 0.2\<rparr> []) ''correctDisposition'' = Some 5"
    by (simp add: score_of_def computeScores_eq analyzeDisposition_def category_call_def
        dispositionKeywords_def string_defs)
  show "score_of (computeScores category_call
      \<lparr>sentiment = js ''negative'', sentiment_score = - 0.2\<rparr> []) ''fatalToneLanguage'' = Some 5"
    by (simp add: score_of_def computeScores_eq analyzeToneLanguage_def category_call_def
        negativeKeywords_def string_defs)
  show "score_of (computeScores category_call
      \<lparr>sentiment = js ''neutral'', sentiment_score = 0\<rparr> []) ''fatalToneLanguage'' = Some 10"
    by (simp add: score_of_def computeScores_eq analyzeToneLanguage_def category_call_def
        negativeKeywords_def string_defs)
  show "\<exists>sc. computeScores_en us' s' ints' = Inr sc \<and> awarded_all_or_nothing parameters sc"
    using all_or_nothing_en [of us' s' ints'] by (simp add: computeScores_en_eq)
  have "map_of (projr (computeScores us s ints)) ''correctDisposition'' \<in> {Some 0, Some 5, Some 10}"
    using analyzeDisposition_values [of us ints] by (simp add: computeScores_eq)
  moreover have "map_of (projr (computeScores us s ints)) ''fatalToneLanguage''
      \<in> {Some 0, Some 5, Some 10, Some 15}"
    using analyzeToneLanguage_values [of s us] by (simp add: computeScores_eq)
  moreover have "computeScores us s ints = Inr (projr (computeScores us s ints))"
    by (simp add: computeScores_eq)
  ultimately show "\<exists>sc. computeScores us s ints = Inr sc \<and>
      awarded_all_or_nothing (filter (\<lambda>p. \<not> graded p) parameters) sc \<and>
      map_of sc ''correctDisposition'' \<in> {Some 0, Some 5, Some 10} \<and>
      map_of sc ''fatalToneLanguage'' \<in> {Some 0, Some 5, Some 10, Some 15}"
    using all_or_nothing_hi [of us s ints] by blast
qed

theorem pass_fail_scores_witness:
  "(\<exists>sc. computeScores_en hello_call \<lparr>overall = Some 0.5\<rparr> [] = Inr sc \<and>
      awarded_all_or_nothing parameters sc) \<and>
   (\<exists>sc. computeScores category_call \<lparr>sentiment = js ''positive'', sentiment_score = 0.5\<rparr> [] = Inr sc \<and>
      awarded_all_or_nothing (filter (\<lambda>p. \<not> graded p) parameters) sc \<and>
      map_of sc ''correctDisposition'' \<in> {Some 0, Some 5, Some 10} \<and>
      map_of sc ''fatalToneLanguage'' \<in> {Some 0, Some 5, Some 10, Some 15})"
  using pass_fail_scores
    [where us' = hello_call and s' = "\<lparr>overall = Some 0.5\<rparr>" and ints' = "[]"
       and us = category_call and s = "\<lparr>sentiment = js ''positive'', sentiment_score = 0.5\<rparr>"
       and ints = "[]"]
  by blast

section \<open>Greeting\<close>

text \<open>
  C4, as stated: the English profile requires lexical confirmation besides the time
  window. The English handler never reads the text: an utterance at 2.0 s whose text has
  no greeting term, neither of the Hindi lexicon nor of the terms of the claim's example,
  scores 5, where the rule with lexical confirmation gives 0.
\<close>

theorem greeting_en_ignores_text:
  "analyzeGreeting_en [\<lparr>transcript = js ''zzz'', start = 2, endT = 3\<rparr>] = Inr 5 \<and>
   greeting_spec 5 True [js ''hello'', js ''good morning'']
     [\<lparr>transcript = js ''zzz'', start = 2, endT = 3\<rparr>] = 0 \<and>
   greeting_spec 5 True greetingKeywords
     [\<lparr>transcript = js ''zzz'', start = 2, endT = 3\<rparr>] = 0"
  by (simp add: analyzeGreeting_en_eq greeting_spec_def greetingKeywords_def string_defs)

text \<open>
  C4, amended. Greeting scoring examines only the first utterance and awards the full
  weight 5 iff its start time is at most the greeting window and, where lexical
  confirmation is required, its lower-cased text contains a greeting-lexicon term; with
  no utterance the score is 0. The English handler has a window of 5 seconds and no
  lexical confirmation, the Hindi handler a window of 3 seconds and lexical confirmation.
  Under the English handler the utterance "Hello, good morning" at 2.0 s scores 5 and the
  same text at 8.0 s scores 0.
\<close>

theorem greeting_follows_profile:
  "analyzeGreeting_en us' = Inr (greeting_spec 5 False lexicon us') \<and>
   analyzeGreeting us = Inr (greeting_spec 3 True greetingKeywords us) \<and>
   analyzeGreeting_en [\<lparr>transcript = js ''Hello, good morning'', start = 2, endT = e\<rparr>] = Inr 5 \<and>
   analyzeGreeting_en [\<lparr>transcript = js ''Hello, good morning'', start = 8, endT = e\<rparr>] = Inr 0"
proof (intro conjI)
  show "analyzeGreeting_en us' = Inr (greeting_spec 5 False lexicon us')"
    by (cases us') (simp_all add: analyzeGreeting_en_eq greeting_spec_def)
  show "analyzeGreeting us = Inr (greeting_spec 3 True greetingKeywords us)"
    by (cases us) (auto simp add: analyzeGreeting_eq greeting_spec_def)
qed (simp_all add: analyzeGreeting_en_eq)

theorem greeting_follows_profile_witness:
  "analyzeGreeting namaste_call = Inr 5 \<and>
   greeting_spec 3 True greetingKeywords namaste_call = 5 \<and>
   analyzeGreeting
     [\<lparr>transcript = [0x928, 0x92E, 0x938, 0x94D, 0x924, 0x947], start = 4, endT = 5,
       utt_sentiment = js ''neutral'', utt_sentiment_score = 0\<rparr>] = Inr 0 \<and>
   analyzeGreeting
     [\<lparr>transcript = js ''Hello, good morning'', start = 2, endT = 3,
       utt_sentiment = js ''neutral'', utt_sentiment_score = 0\<rparr>] = Inr 0 \<and>
   analyzeGreeting_en hello_call = Inr 5"
proof -
  have a: "greeting_spec 3 True greetingKeywords namaste_call = 5"
    by (simp add: greeting_spec_def namaste_call_def greetingKeywords_def string_defs)
  have b: "greeting_spec 3 True greetingKeywords
     [\<lparr>transcript = [0x928, 0x92E, 0x938, 0x94D, 0x924, 0x947], start = 4, endT = 5,
       utt_sentiment = js ''neutral'', utt_sentiment_score = 0\<rparr>] = 0"
    by (simp add: greeting_spec_def)
  have c: "greeting_spec 3 True greetingKeywords
     [\<lparr>transcript = js ''Hello, good morning'', start = 2, endT = 3,
       utt_sentiment = js ''neutral'', utt_sentiment_score = 0\<rparr>] = 0"
    by (simp add: greeting_spec_def greetingKeywords_def string_defs)
  have d: "greeting_spec 5 False [] hello_call = 5"
    by (simp add: greeting_spec_def hello_call_def)
  show ?thesis
    using greeting_follows_profile [where us = namaste_call and us' = hello_call and lexicon = "[]"]
      greeting_follows_profile
        [where us = "[\<lparr>transcript = [0x928, 0x92E, 0x938, 0x94D, 0x924, 0x947], start = 4,
           endT = 5, utt_sentiment = js ''neutral'', utt_sentiment_score = 0\<rparr>]"]
      greeting_follows_profile
        [where us = "[\<lparr>transcript = js ''Hello, good morning'', start = 2, endT = 3,
           utt_sentiment = js ''neutral'', utt_sentiment_score = 0\<rparr>]"]
    unfolding a b c d by blast
qed

section \<open>Call closing\<close>

lemma gratitudeTerms_caseless: "list_all caseless (closingKeywords @ gratitudeTerms)"
  by (simp add: closingKeywords_def gratitudeTerms_def caseless_def caseless_unit_def)

lemma some_includes_caseless:
  "list_all caseless lexicon \<Longrightarrow>
   some_includes (toLowerCase t) lexicon = some_includes t lexicon"
  by (induction lexicon) (simp_all add: some_includes_def str_includes_toLowerCase_caseless)

lemma gratitude_is_closing:
  "some_includes t gratitudeTerms \<Longrightarrow> some_includes t closingKeywords"
  by (auto simp add: some_includes_def gratitudeTerms_def closingKeywords_def)

text \<open>
  C6, as stated: a closing word that is not a thank-you term, such as "bye", does not
  earn the weight. The English handler awards 5 to a last utterance "bye", which holds
  none of the thank-you terms of its lexicon.
\<close>

theorem closing_en_awards_bye:
  "analyzeClosing_en [\<lparr>transcript = js ''bye'', start = 9, endT = 10\<rparr>] = Inr 5 \<and>
   \<not> some_includes (toLowerCase (js ''bye'')) gratitudeTerms_en"
  by (simp add: analyzeClosing_en_eq closingKeywords_en_def gratitudeTerms_en_def string_defs)

text \<open>
  C6, amended. Call-closing scoring examines only the last utterance; with no utterance
  the score is 0. The Hindi handler awards the full weight 5 iff the last utterance
  contains one of the two thank-you terms of \<open>gratitudeTerms\<close>, so that another closing
  word alone (U+092C U+093E U+092F, "bye") earns 0. The English handler awards 5 iff the
  lower-cased last utterance contains any term of its closing lexicon, "bye" included;
  the lower case is that of JavaScript, in which the Kelvin sign U+212A becomes k, so
  that the last utterance "THAN", U+212A, " YOU" earns 5.
\<close>

theorem closing_follows_handler:
  "analyzeClosing us =
     Inr (if us = [] then 0 else if some_includes (transcript (last us)) gratitudeTerms then 5 else 0) \<and>
   analyzeClosing_en us' =
     Inr (if us' = [] then 0
          else if some_includes (toLowerCase (transcript (last us'))) closingKeywords_en
          then 5 else 0) \<and>
   analyzeClosing
     [\<lparr>transcript = [0x92C, 0x93E, 0x92F], start = 9, endT = 10,
       utt_sentiment = js ''neutral'', utt_sentiment_score = 0\<rparr>] = Inr 0 \<and>
   analyzeClosing_en
     [\<lparr>transcript = js ''THAN'' @ [0x212A] @ js '' YOU'', start = 9, endT = 10\<rparr>] = Inr 5"
proof (intro conjI)
  have c: "list_all caseless closingKeywords" and g: "list_all caseless gratitudeTerms"
    using gratitudeTerms_caseless by simp_all
  have "(some_includes (toLowerCase t) closingKeywords \<and>
         (str_includes (toLowerCase t) [0x927, 0x928, 0x94D, 0x92F, 0x935, 0x93E, 0x926] \<or>
          str_includes (toLowerCase t) [0x936, 0x941, 0x915, 0x94D, 0x930, 0x93F, 0x92F, 0x93E]))
        = some_includes t gratitudeTerms" for t
  proof -
    have "(str_includes (toLowerCase t) [0x927, 0x928, 0x94D, 0x92F, 0x935, 0x93E, 0x926] \<or>
          str_includes (toLowerCase t) [0x936, 0x941, 0x915, 0x94D, 0x930, 0x93F, 0x92F, 0x93E])
        = some_includes (toLowerCase t) gratitudeTerms"
      by (simp add: some_includes_def gratitudeTerms_def)
    then show ?thesis
      using gratitude_is_closing [of t]
      by (auto simp add: some_includes_caseless [OF c] some_includes_caseless [OF g])
  qed
  then show "analyzeClosing us =
     Inr (if us = [] then 0 else if some_includes (transcript (last us)) gratitudeTerms then 5 else 0)"
    by (simp add: analyzeClosing_eq)
  show "analyzeClosing_en us' =
     Inr (if us' = [] then 0
          else if some_includes (toLowerCase (transcript (last us'))) closingKeywords_en
          then 5 else 0)"
    by (rule analyzeClosing_en_eq)
  show "analyzeClosing
     [\<lparr>transcript = [0x92C, 0x93E, 0x92F], start = 9, endT = 10,
       utt_sentiment = js ''neutral'', utt_sentiment_score = 0\<rparr>] = Inr 0"
    by (simp add: analyzeClosing_eq closingKeywords_def string_defs)
  show "analyzeClosing_en
     [\<lparr>transcript = js ''THAN'' @ [0x212A] @ js '' YOU'', start = 9, endT = 10\<rparr>] = Inr 5"
    by (simp add: analyzeClosing_en_eq closingKeywords_en_def string_defs)
qed

theorem closing_follows_handler_witness:
  "analyzeClosing namaste_call = Inr 5 \<and> analyzeClosing rebuttal_then_objection = Inr 0 \<and>
   analyzeClosing_en hello_call = Inr 5 \<and>
   analyzeClosing_en [\<lparr>transcript = js ''ok'', start = 9, endT = 10\<rparr>] = Inr 0"
proof -
  have a: "some_includes (transcript (last namaste_call)) gratitudeTerms" "namaste_call \<noteq> []"
    by (simp_all add: namaste_call_def gratitudeTerms_def some_includes_def)
  have b: "\<not> some_includes (transcript (last rebuttal_then_objection)) gratitudeTerms"
    by (simp add: rebuttal_then_objection_def gratitudeTerms_def some_includes_def)
  have c: "some_includes (toLowerCase (transcript (last hello_call))) closingKeywords_en"
    "hello_call \<noteq> []"
    by (simp_all add: hello_call_def closingKeywords_en_def string_defs)
  have d: "\<not> some_includes (toLowerCase (transcript
      (last [\<lparr>transcript = js ''ok'', start = 9, endT = 10\<rparr>]))) closingKeywords_en"
    by (simp add: closingKeywords_en_def string_defs)
  show ?thesis
    using closing_follows_handler [where us = namaste_call and us' = hello_call]
      closing_follows_handler
        [where us = rebuttal_then_objection
           and us' = "[\<lparr>transcript = js ''ok'', start = 9, endT = 10\<rparr>]"]
      a b c d
    by simp
qed

section \<open>Observation fallback\<close>

lemma observationStep_hasObjections:
  "hasObjections (observationStep st u) = (hasObjections st \<or> hasObjection u)"
  by (simp add: observationStep_def hasObjection_def Let_def)

lemma foldl_observationStep_hasObjections:
  "hasObjections (foldl observationStep st us) = (hasObjections st \<or> list_ex hasObjection us)"
  by (induction us arbitrary: st) (simp_all add: observationStep_hasObjections)

lemma observationScan_hasObjections:
  "hasObjections (observationScan us) = list_ex hasObjection us"
  by (simp add: observationScan_def foldl_observationStep_hasObjections)

lemma join_starts:
  assumes "obs \<noteq> []" and "\<forall>e\<in>set obs. e \<noteq> [] \<and> hd e \<noteq> c"
  shows "join sep obs \<noteq> [] \<and> hd (join sep obs) \<noteq> c"
proof (cases obs)
  case Nil
  with assms(1) show ?thesis by simp
next
  case (Cons x xs)
  with assms(2) have "x \<noteq> [] \<and> hd x \<noteq> c" by simp
  then show ?thesis using Cons by (cases xs) simp_all
qed

lemma last_closing_check:
  "(case js_index us (int (length us) - 1) of
      None \<Rightarrow> False
    | Some lastUtterance \<Rightarrow> some_includes (toLowerCase (transcript lastUtterance)) closingKeywords)
   = (us \<noteq> [] \<and> some_includes (toLowerCase (transcript (last us))) closingKeywords)"
  by (cases "us = []") (simp_all add: js_index_last, simp add: js_index_def)

lemma js_starts:
  "js (x # xs) \<noteq> []" "js (x # xs) @ t \<noteq> []"
  "hd (js (x # xs)) = of_nat (of_char x)" "hd (js (x # xs) @ t) = of_nat (of_char x)"
  by (simp_all add: js_def)

lemma fallbackObservation_starts: "fallbackObservation \<noteq> [] \<and> hd fallbackObservation = 0x4E"
  by (simp add: fallbackObservation_def js_starts)

lemma generateObservation_fallback_iff:
  "generateObservation us [] s = fallbackObservation \<longleftrightarrow> no_observation_clause us"
proof -
  define st where "st = observationScan us"
  define objectionPart where "objectionPart =
    (if hasObjections st then
       (let topicList = objectionTopics st in
        if length topicList > 0 then
          (if hasRebuttals st
           then [js ''Customer raised objections about '' @ join (js '' and '') topicList
                   @ js ''. Agent managed well'']
           else [js ''Customer raised objections about '' @ join (js '' and '') topicList
                   @ js ''. Agent could have handled better''])
        else
          (if hasRebuttals st
           then [js ''Customer raised objections which were handled professionally'']
           else [js ''Customer raised objections that could have been handled better'']))
     else [])"
  define disclosurePart where "disclosurePart =
    (if \<not> list_ex (\<lambda>utterance.
           some_includes (toLowerCase (transcript utterance)) disclosureKeywords) us
     then [js ''Agent missed tape disclosure''] else [])"
  define identificationPart where "identificationPart =
    (if \<not> list_ex (\<lambda>utterance.
           some_includes (toLowerCase (transcript utterance)) idKeywords) us
     then [js ''Customer identification was not properly verified''] else [])"
  define closingPart where "closingPart =
    (if \<not> (us \<noteq> [] \<and> some_includes (toLowerCase (transcript (last us))) closingKeywords)
     then [js ''Call ended without proper closing''] else [])"
  define obs where "obs = objectionPart @ disclosurePart @ identificationPart @ closingPart"
  have result: "generateObservation us [] s =
      (if join (js ''. '') obs = [] then fallbackObservation else join (js ''. '') obs)"
    unfolding generateObservation_def last_closing_check Let_def obs_def objectionPart_def
      disclosurePart_def identificationPart_def closingPart_def st_def
    by (simp only: list.size less_irrefl if_False append_Nil)
  have o: "\<forall>e\<in>set objectionPart. e \<noteq> [] \<and> hd e \<noteq> 0x4E"
    unfolding objectionPart_def Let_def by (simp add: js_starts)
  have d: "\<forall>e\<in>set disclosurePart. e \<noteq> [] \<and> hd e \<noteq> 0x4E"
    unfolding disclosurePart_def by (simp add: js_starts)
  have i: "\<forall>e\<in>set identificationPart. e \<noteq> [] \<and> hd e \<noteq> 0x4E"
    unfolding identificationPart_def by (simp add: js_starts)
  have c: "\<forall>e\<in>set closingPart. e \<noteq> [] \<and> hd e \<noteq> 0x4E"
    unfolding closingPart_def by (simp add: js_starts)
  from o d i c have starts: "\<forall>e\<in>set obs. e \<noteq> [] \<and> hd e \<noteq> 0x4E"
    unfolding obs_def by auto
  have "objectionPart = [] \<longleftrightarrow> \<not> list_ex hasObjection us"
    by (simp add: objectionPart_def st_def observationScan_hasObjections Let_def)
  then have empty: "obs = [] \<longleftrightarrow> no_observation_clause us"
    by (simp add: obs_def disclosurePart_def identificationPart_def closingPart_def
        no_observation_clause_def)
  show ?thesis
  proof (cases "obs = []")
    case True
    with result empty show ?thesis by simp
  next
    case False
    from join_starts [OF False starts, of "js ''. ''"] fallbackObservation_starts
    have "join (js ''. '') obs \<noteq> []" and "join (js ''. '') obs \<noteq> fallbackObservation"
      by auto
    with result empty False show ?thesis by simp
  qed
qed

text \<open>
  C8, as stated: for every call with zero topics and neutral sentiment the fallback
  string is returned. The Hindi \<open>generateObservation\<close> returns three clauses for the call
  without utterances, zero topics and neutral sentiment.
\<close>

theorem observation_not_fallback:
  "generateObservation [] [] \<lparr>sentiment = js ''neutral'', sentiment_score = 0\<rparr> =
     js ''Agent missed tape disclosure. Customer identification was not properly verified. Call ended without proper closing'' \<and>
   generateObservation [] [] \<lparr>sentiment = js ''neutral'', sentiment_score = 0\<rparr> \<noteq>
     fallbackObservation"
proof -
  have "\<not> no_observation_clause []"
    by (simp add: no_observation_clause_def)
  then show ?thesis
    using generateObservation_empty generateObservation_fallback_iff by blast
qed

text \<open>
  C8, amended. With zero topics and call sentiment 0 the English \<open>generateObservation\<close>
  returns the fallback string "No specific observations available." exactly. With zero
  topics the Hindi \<open>generateObservation\<close> returns the fallback string exactly iff no
  clause fires on the utterances (\<open>no_observation_clause\<close>), whatever the sentiment.
\<close>

theorem observation_fallback:
  "generateObservation_en us' [] \<lparr>overall = Some 0\<rparr> = fallbackObservation \<and>
   fallbackObservation = js ''No specific observations available.'' \<and>
   (generateObservation us [] s = fallbackObservation \<longleftrightarrow> no_observation_clause us)"
proof (intro conjI)
  show "generateObservation_en us' [] \<lparr>overall = Some 0\<rparr> = fallbackObservation"
    by (simp add: generateObservation_en_def)
  show "fallbackObservation = js ''No specific observations available.''"
    by (rule fallbackObservation_def)
  show "generateObservation us [] s = fallbackObservation \<longleftrightarrow> no_observation_clause us"
    by (rule generateObservation_fallback_iff)
qed

theorem observation_fallback_witness:
  "no_observation_clause quiet_call \<and>
   generateObservation quiet_call [] \<lparr>sentiment = js ''neutral'', sentiment_score = 0\<rparr> =
     js ''No specific observations available.'' \<and>
   generateObservation_en hello_call [] \<lparr>overall = Some 0\<rparr> =
     js ''No specific observations available.''"
proof -
  have "no_observation_clause quiet_call"
    by (simp add: no_observation_clause_def quiet_call_def hasObjection_def lexicon_defs
        string_defs)
  then show ?thesis
    using observation_fallback
      [where us = quiet_call and us' = hello_call
         and s = "\<lparr>sentiment = js ''neutral'', sentiment_score = 0\<rparr>"]
    by metis
qed

end
